theory Spec2Isabelle
  imports Complex_Main
begin

section \<open>JavaScript numbers\<close>

text \<open>
  A JavaScript number is an IEEE 754 binary64 value: NaN, an infinity with its sign, or a
  finite value \<open>(-1)\<^sup>s \<sqdot> m \<sqdot> 2\<^sup>e\<close>, here \<open>Finite s m e\<close>. A finite value is kept with an
  odd \<open>m\<close> (so that equal values are equal terms), and zero as \<open>Finite s 0 0\<close>, with its
  sign. The values of binary64 are those with \<open>m < 2\<^sup>5\<^sup>3\<close>, \<open>e \<ge> -1074\<close> and less than
  \<open>2\<^sup>1\<^sup>0\<^sup>2\<^sup>4\<close> in magnitude; the arithmetic below rounds its results to them.
\<close>

datatype number = NaN | Infinity bool | Finite bool nat int

text \<open>The number of binary digits of \<open>n\<close>.\<close>

fun bitLength :: "nat \<Rightarrow> nat" where
  "bitLength n = (if n = 0 then 0 else Suc (bitLength (n div 2)))"

declare bitLength.simps [simp del]

text \<open>The representation with an odd mantissa.\<close>

fun canonical :: "nat \<Rightarrow> int \<Rightarrow> nat \<times> int" where
  "canonical m e =
     (if m = 0 then (0, 0) else if even m then canonical (m div 2) (e + 1) else (m, e))"

declare canonical.simps [simp del]

text \<open>\<open>\<lfloor>log\<^sub>2 (n / d)\<rfloor>\<close>, for positive \<open>n\<close> and \<open>d\<close>.\<close>

definition floorLog2 :: "nat \<Rightarrow> nat \<Rightarrow> int" where
  "floorLog2 n d =
     (let t = int (bitLength n) - int (bitLength d)
      in if d * 2 ^ nat t \<le> n * 2 ^ nat (- t) then t else t - 1)"

text \<open>
  The binary64 value nearest to \<open>(-1)\<^sup>s \<sqdot> n / d\<close> (\<open>d > 0\<close>), ties to the even mantissa:
  the rounding of IEEE 754 in its default mode, which is the only one JavaScript has. The
  last digit kept has the weight \<open>2\<^sup>q\<close>: 53 digits are kept, fewer below the least normal
  value; a result of \<open>2\<^sup>1\<^sup>0\<^sup>2\<^sup>4\<close> or more is an infinity, one that rounds to nothing is a
  zero.
\<close>

definition roundToDouble :: "bool \<Rightarrow> nat \<Rightarrow> nat \<Rightarrow> number" where
  "roundToDouble s n d =
     (if n = 0 then Finite s 0 0
      else
        let q = max (floorLog2 n d - 52) (- 1074);
            N = n * 2 ^ nat (- q);
            D = d * 2 ^ nat q;
            hi = N div D;
            lo = N mod D;
            m = (if D < 2 * lo \<or> (2 * lo = D \<and> odd hi) then hi + 1 else hi)
        in if 1024 < int (bitLength m) + q then Infinity s
           else case canonical m q of (m', e') \<Rightarrow> Finite s m' e')"

text \<open>The binary64 value nearest to \<open>(-1)\<^sup>s \<sqdot> m \<sqdot> 2\<^sup>e\<close>.\<close>

definition roundScaled :: "bool \<Rightarrow> nat \<Rightarrow> int \<Rightarrow> number" where
  "roundScaled s m e = roundToDouble s (m * 2 ^ nat e) (2 ^ nat (- e))"

text \<open>
  \<^verbatim>\<open>x + y\<close>: the exact sum, rounded. An exact sum of zero is \<open>+0\<close> unless both operands
  are negative (then both are \<open>-0\<close>).
\<close>

fun fadd :: "number \<Rightarrow> number \<Rightarrow> number" where
  "fadd NaN y = NaN"
| "fadd x NaN = NaN"
| "fadd (Infinity s) (Infinity t) = (if s = t then Infinity s else NaN)"
| "fadd (Infinity s) (Finite t m e) = Infinity s"
| "fadd (Finite s m e) (Infinity t) = Infinity t"
| "fadd (Finite s1 m1 e1) (Finite s2 m2 e2) =
     (let e = min e1 e2;
          a = (if s1 then - 1 else 1) * (int m1 * 2 ^ nat (e1 - e));
          b = (if s2 then - 1 else 1) * (int m2 * 2 ^ nat (e2 - e));
          c = a + b
      in if c = 0 then Finite (s1 \<and> s2) 0 0
         else roundScaled (c < 0) (nat \<bar>c\<bar>) e)"

text \<open>\<^verbatim>\<open>x * y\<close>: the exact product, rounded; the sign is the product of the signs.\<close>

fun fmul :: "number \<Rightarrow> number \<Rightarrow> number" where
  "fmul NaN y = NaN"
| "fmul x NaN = NaN"
| "fmul (Infinity s) (Infinity t) = Infinity (s \<noteq> t)"
| "fmul (Infinity s) (Finite t m e) = (if m = 0 then NaN else Infinity (s \<noteq> t))"
| "fmul (Finite s m e) (Infinity t) = (if m = 0 then NaN else Infinity (s \<noteq> t))"
| "fmul (Finite s1 m1 e1) (Finite s2 m2 e2) = roundScaled (s1 \<noteq> s2) (m1 * m2) (e1 + e2)"

text \<open>The falsy numbers, those \<^verbatim>\<open>x || y\<close> replaces by \<^verbatim>\<open>y\<close>: \<open>+0\<close>, \<open>-0\<close> and NaN.\<close>

fun falsy :: "number \<Rightarrow> bool" where
  "falsy NaN = True"
| "falsy (Infinity s) = False"
| "falsy (Finite s m e) = (m = 0)"

text \<open>
  Literals: an integer literal such as \<^verbatim>\<open>20\<close>, and a decimal literal \<^verbatim>\<open>n / 10\<^sup>k\<close> as
  \<open>roundToDouble False n (10 ^ k)\<close>.
\<close>

definition ofNat :: "nat \<Rightarrow> number" where
  "ofNat n = roundToDouble False n 1"

text \<open>The literal \<^verbatim>\<open>0.0000000001\<close> of \<^verbatim>\<open>Voice.setGain\<close>.\<close>

definition tinyGain :: number where
  "tinyGain = roundToDouble False 1 10000000000"

section \<open>Data model\<close>

text \<open>
  The descriptor types of \<^verbatim>\<open>src/types\<close> (imported by both classes, not part of the
  sources at hand).
\<close>

text \<open>Modelled from the spec: type \<^verbatim>\<open>Partial\<close>, {rate, amplitude, phase}.\<close>

record Partial =
  rate :: number
  amplitude :: number
  phase :: number

text \<open>Modelled from the spec: type \<^verbatim>\<open>SpectralLayer\<close>, {partials: ordered sequence of Partial}.\<close>

record SpectralLayer =
  partials :: "Partial list"

text \<open>Modelled from the spec: type \<^verbatim>\<open>Spectrum\<close>, an ordered sequence of SpectralLayer.\<close>

type_synonym Spectrum = "SpectralLayer list"

text \<open>Modelled from the spec: type \<^verbatim>\<open>ADSR\<close>, {attack, decay, sustain, release}.\<close>

record ADSR =
  attack :: number
  decay :: number
  sustain :: number
  release :: number

text \<open>
  Modelled from the spec: type \<^verbatim>\<open>PlayState\<close>, the three string literals
  \<^verbatim>\<open>"ready"\<close>, \<^verbatim>\<open>"playing"\<close>, \<^verbatim>\<open>"used"\<close> the classes compare \<^verbatim>\<open>_state\<close> with.
\<close>

datatype PlayState = Ready | Playing | Used

text \<open>
  Modelled from the spec: types \<^verbatim>\<open>OscillatorAddress\<close> and \<^verbatim>\<open>PartialAddress\<close>; each index
  is a number or absent (\<open>None\<close>).
\<close>

record Address =
  oscIndex :: "int option"
  partialIndex :: "int option"

subsection \<open>Host audio engine\<close>

text \<open>
  The host's \<^verbatim>\<open>AudioContext\<close> is a clock; every operation that reads
  \<^verbatim>\<open>this._audioContext.currentTime\<close> takes the context as an argument, which is the
  reading of the clock at the call.
\<close>

record AudioContext =
  currentTime :: number

text \<open>
  A \<^verbatim>\<open>GainNode\<close> is a spy: it keeps the calls made on it, in order. Its current
  value (\<^verbatim>\<open>gain.value\<close>) is computed by the host; the classes only read it.
\<close>

datatype GainEvent =
    Connect
  | Disconnect
  | LinearRampToValueAtTime number number
  | ExponentialRampToValueAtTime number number
  | CancelScheduledValues number

record GainNode =
  gain_value :: number
  gain_events :: "GainEvent list"

definition createGain :: "AudioContext \<Rightarrow> GainNode" where
  "createGain ctx = \<lparr>gain_value = ofNat 1, gain_events = []\<rparr>"

definition schedule :: "GainNode \<Rightarrow> GainEvent \<Rightarrow> GainNode" where
  "schedule g e = g\<lparr>gain_events := gain_events g @ [e]\<rparr>"

text \<open>A default parameter \<^verbatim>\<open>time = this._audioContext.currentTime\<close>.\<close>

definition timeOrNow :: "AudioContext \<Rightarrow> number option \<Rightarrow> number" where
  "timeOrNow ctx time = (case time of None \<Rightarrow> currentTime ctx | Some t \<Rightarrow> t)"

subsection \<open>JavaScript arrays\<close>

text \<open>
  \<^verbatim>\<open>xs[i]\<close>: \<^verbatim>\<open>undefined\<close> (\<open>None\<close>) out of range. Indices are integers; a fractional
  index, NaN and the infinities are not modelled.
\<close>

definition arrayAt :: "'a list \<Rightarrow> nat \<Rightarrow> 'a option" where
  "arrayAt xs i = (if i < length xs then Some (xs ! i) else None)"

definition arrayAtInt :: "'a list \<Rightarrow> int \<Rightarrow> 'a option" where
  "arrayAtInt xs i = (if i < 0 then None else arrayAt xs (nat i))"

text \<open>
  \<^verbatim>\<open>xs.splice(start, deleteCount)\<close> for integers, after ECMAScript's
  \<^verbatim>\<open>Array.prototype.splice\<close>: a negative start counts from the end, both are clamped.
  Returns the removed elements and the array that remains.
\<close>

definition splice :: "'a list \<Rightarrow> int \<Rightarrow> int \<Rightarrow> 'a list \<times> 'a list" where
  "splice xs start deleteCount =
     (let len = int (length xs);
          actualStart = (if start < 0 then max (len + start) 0 else min start len);
          actualDeleteCount = min (max deleteCount 0) (len - actualStart);
          a = nat actualStart;
          d = nat actualDeleteCount
      in (take d (drop a xs), take a xs @ drop (a + d) xs))"

subsection \<open>Oscillator\<close>

text \<open>
  Modelled from the spec: class \<^verbatim>\<open>Oscillator\<close> (\<^verbatim>\<open>./Oscillator\<close>), a leaf consumed as the
  capability \<^verbatim>\<open>play(pitch, time)\<close>, \<^verbatim>\<open>stop(time)\<close>, \<^verbatim>\<open>update(partial)\<close>,
  \<^verbatim>\<open>setRate(rate)\<close>, \<^verbatim>\<open>destroy()\<close> with the attribute \<^verbatim>\<open>rate\<close>. It holds the
  descriptor it realises and, as a spy, the calls it has received.
\<close>

datatype OscillatorCall =
    CallPlay number "number option"
  | CallStop number
  | CallUpdate Partial
  | CallSetRate number
  | CallDestroy

record Oscillator =
  osc_rate :: number
  osc_amplitude :: number
  osc_phase :: number
  osc_calls :: "OscillatorCall list"

definition Oscillator_new :: "Partial \<Rightarrow> Oscillator" where
  "Oscillator_new p =
     \<lparr>osc_rate = rate p, osc_amplitude = amplitude p, osc_phase = phase p, osc_calls = []\<rparr>"

definition Oscillator_play :: "Oscillator \<Rightarrow> number \<Rightarrow> number option \<Rightarrow> Oscillator" where
  "Oscillator_play osc pitch time = osc\<lparr>osc_calls := osc_calls osc @ [CallPlay pitch time]\<rparr>"

definition Oscillator_stop :: "Oscillator \<Rightarrow> number \<Rightarrow> Oscillator" where
  "Oscillator_stop osc time = osc\<lparr>osc_calls := osc_calls osc @ [CallStop time]\<rparr>"

definition Oscillator_update :: "Oscillator \<Rightarrow> Partial \<Rightarrow> Oscillator" where
  "Oscillator_update osc p =
     osc\<lparr>osc_rate := rate p, osc_amplitude := amplitude p, osc_phase := phase p,
         osc_calls := osc_calls osc @ [CallUpdate p]\<rparr>"

definition Oscillator_setRate :: "Oscillator \<Rightarrow> number \<Rightarrow> Oscillator" where
  "Oscillator_setRate osc r = osc\<lparr>osc_rate := r, osc_calls := osc_calls osc @ [CallSetRate r]\<rparr>"

definition Oscillator_destroy :: "Oscillator \<Rightarrow> Oscillator" where
  "Oscillator_destroy osc = osc\<lparr>osc_calls := osc_calls osc @ [CallDestroy]\<rparr>"

text \<open>The descriptor an oscillator currently realises.\<close>

definition Oscillator_partial :: "Oscillator \<Rightarrow> Partial" where
  "Oscillator_partial osc =
     \<lparr>rate = osc_rate osc, amplitude = osc_amplitude osc, phase = osc_phase osc\<rparr>"

section \<open>OscillatorBank\<close>

record OscillatorBank =
  bank_gain :: GainNode
  bank_state :: PlayState
  bank_pitch :: number
  bank_oscillators :: "Oscillator list"

definition OscillatorBank_connect :: "OscillatorBank \<Rightarrow> OscillatorBank" where
  "OscillatorBank_connect b = b\<lparr>bank_gain := schedule (bank_gain b) Connect\<rparr>"

definition OscillatorBank_disconnect :: "OscillatorBank \<Rightarrow> OscillatorBank" where
  "OscillatorBank_disconnect b = b\<lparr>bank_gain := schedule (bank_gain b) Disconnect\<rparr>"

definition buildOscillators :: "Partial list \<Rightarrow> Oscillator list" where
  "buildOscillators ps = fold (\<lambda>partial oscillators. oscillators @ [Oscillator_new partial]) ps []"

definition OscillatorBank_setGain ::
  "AudioContext \<Rightarrow> OscillatorBank \<Rightarrow> number \<Rightarrow> number option \<Rightarrow> OscillatorBank" where
  "OscillatorBank_setGain ctx b v time =
     b\<lparr>bank_gain := schedule (bank_gain b) (LinearRampToValueAtTime v (timeOrNow ctx time))\<rparr>"

text \<open>
  The constructor. The field initialiser \<^verbatim>\<open>_pitch = 20\<close> runs first; \<^verbatim>\<open>_state\<close> is
  assigned last, and nothing reads it before.
\<close>

definition OscillatorBank_new :: "AudioContext \<Rightarrow> SpectralLayer \<Rightarrow> OscillatorBank" where
  "OscillatorBank_new ctx layer =
     (let b0 = \<lparr>bank_gain = createGain ctx, bank_state = Ready, bank_pitch = ofNat 20,
                bank_oscillators = []\<rparr>;
          b1 = OscillatorBank_connect b0;
          b2 = b1\<lparr>bank_oscillators := buildOscillators (partials layer)\<rparr>;
          b3 = OscillatorBank_setGain ctx b2 (ofNat 1) None
      in b3\<lparr>bank_state := Ready\<rparr>)"

definition OscillatorBank_oscillator :: "OscillatorBank \<Rightarrow> int \<Rightarrow> Oscillator option" where
  "OscillatorBank_oscillator b index = arrayAtInt (bank_oscillators b) index"

definition OscillatorBank_play ::
  "AudioContext \<Rightarrow> OscillatorBank \<Rightarrow> number \<Rightarrow> number option \<Rightarrow> OscillatorBank" where
  "OscillatorBank_play ctx b pitch time =
     (if bank_state b = Used then b
      else
        let t = timeOrNow ctx time;
            b1 = b\<lparr>bank_pitch := pitch\<rparr>;
            b2 = b1\<lparr>bank_oscillators :=
                      map (\<lambda>osc. Oscillator_play osc (bank_pitch b1) (Some t)) (bank_oscillators b1)\<rparr>
        in b2\<lparr>bank_state := Playing\<rparr>)"

definition OscillatorBank_stop ::
  "AudioContext \<Rightarrow> OscillatorBank \<Rightarrow> number option \<Rightarrow> OscillatorBank" where
  "OscillatorBank_stop ctx b time =
     (let t = timeOrNow ctx time
      in b\<lparr>bank_oscillators := map (\<lambda>osc. Oscillator_stop osc t) (bank_oscillators b)\<rparr>)"

text \<open>Returns the removed oscillator (or \<^verbatim>\<open>undefined\<close>) and the bank.\<close>

definition OscillatorBank_removeOscillator ::
  "OscillatorBank \<Rightarrow> int \<Rightarrow> Oscillator option \<times> OscillatorBank" where
  "OscillatorBank_removeOscillator b index =
     (let (removed, rest) = splice (bank_oscillators b) index 1;
          b1 = b\<lparr>bank_oscillators := rest\<rparr>
      in case arrayAt removed 0 of
           None \<Rightarrow> (None, b1)
         | Some removedOscillator \<Rightarrow> (Some (Oscillator_destroy removedOscillator), b1))"

definition OscillatorBank_createOscillator :: "OscillatorBank \<Rightarrow> Partial \<Rightarrow> OscillatorBank" where
  "OscillatorBank_createOscillator b p =
     (let newOscillator = Oscillator_new p;
          newOscillator1 =
            (if bank_state b = Playing then Oscillator_play newOscillator (bank_pitch b) None
             else newOscillator)
      in b\<lparr>bank_oscillators := bank_oscillators b @ [newOscillator1]\<rparr>)"

text \<open>The three loops of \<^verbatim>\<open>update\<close>, one body each.\<close>

definition bank_updateStep :: "Partial list \<Rightarrow> nat \<Rightarrow> OscillatorBank \<Rightarrow> OscillatorBank" where
  "bank_updateStep ps i b =
     (case (arrayAt (bank_oscillators b) i, arrayAt ps i) of
        (Some osc, Some partial) \<Rightarrow>
          b\<lparr>bank_oscillators := (bank_oscillators b)[i := Oscillator_update osc partial]\<rparr>
      | _ \<Rightarrow> b)"

definition bank_removeStep :: "nat \<Rightarrow> nat \<Rightarrow> OscillatorBank \<Rightarrow> OscillatorBank" where
  "bank_removeStep commonLength i b = snd (OscillatorBank_removeOscillator b (int commonLength))"

definition bank_createStep ::
  "Partial list \<Rightarrow> nat \<Rightarrow> nat \<Rightarrow> OscillatorBank \<Rightarrow> OscillatorBank" where
  "bank_createStep ps commonLength i b =
     (case arrayAt ps (commonLength + i) of
        None \<Rightarrow> b
      | Some partial \<Rightarrow> OscillatorBank_createOscillator b partial)"

definition OscillatorBank_update :: "OscillatorBank \<Rightarrow> SpectralLayer \<Rightarrow> OscillatorBank" where
  "OscillatorBank_update b layer =
     (let ps = partials layer;
          commonLength = min (length (bank_oscillators b)) (length ps);
          difference = int (length (bank_oscillators b)) - int (length ps);
          b1 = fold (bank_updateStep ps) [0..<commonLength] b;
          b2 = (if difference > 0
                then fold (bank_removeStep commonLength) [0..<nat difference] b1 else b1);
          b3 = (if difference < 0
                then fold (bank_createStep ps commonLength) [0..<nat (- difference)] b2 else b2)
      in b3)"

definition OscillatorBank_shiftRate :: "OscillatorBank \<Rightarrow> number \<Rightarrow> OscillatorBank" where
  "OscillatorBank_shiftRate b shift =
     b\<lparr>bank_oscillators :=
         map (\<lambda>osc. Oscillator_setRate osc (fadd (osc_rate osc) shift)) (bank_oscillators b)\<rparr>"

definition OscillatorBank_destroy :: "AudioContext \<Rightarrow> OscillatorBank \<Rightarrow> OscillatorBank" where
  "OscillatorBank_destroy ctx b =
     (if bank_state b = Playing
      then OscillatorBank_disconnect (OscillatorBank_stop ctx b None)
      else OscillatorBank_disconnect b)"

text \<open>The descriptor list a bank currently realises.\<close>

definition OscillatorBank_layer :: "OscillatorBank \<Rightarrow> SpectralLayer" where
  "OscillatorBank_layer b = \<lparr>partials = map Oscillator_partial (bank_oscillators b)\<rparr>"

text \<open>The public operations of a bank, and a run of them, each with the clock at the call.\<close>

datatype BankOp =
    BankPlay number "number option"
  | BankStop "number option"
  | BankUpdate SpectralLayer
  | BankCreateOscillator Partial
  | BankRemoveOscillator int
  | BankSetGain number "number option"
  | BankShiftRate number
  | BankDestroy

fun OscillatorBank_apply :: "AudioContext \<Rightarrow> BankOp \<Rightarrow> OscillatorBank \<Rightarrow> OscillatorBank" where
  "OscillatorBank_apply ctx (BankPlay pitch time) b = OscillatorBank_play ctx b pitch time"
| "OscillatorBank_apply ctx (BankStop time) b = OscillatorBank_stop ctx b time"
| "OscillatorBank_apply ctx (BankUpdate layer) b = OscillatorBank_update b layer"
| "OscillatorBank_apply ctx (BankCreateOscillator p) b = OscillatorBank_createOscillator b p"
| "OscillatorBank_apply ctx (BankRemoveOscillator i) b = snd (OscillatorBank_removeOscillator b i)"
| "OscillatorBank_apply ctx (BankSetGain v time) b = OscillatorBank_setGain ctx b v time"
| "OscillatorBank_apply ctx (BankShiftRate shift) b = OscillatorBank_shiftRate b shift"
| "OscillatorBank_apply ctx BankDestroy b = OscillatorBank_destroy ctx b"

fun OscillatorBank_run :: "(AudioContext \<times> BankOp) list \<Rightarrow> OscillatorBank \<Rightarrow> OscillatorBank" where
  "OscillatorBank_run [] b = b"
| "OscillatorBank_run ((ctx, op) # ops) b = OscillatorBank_run ops (OscillatorBank_apply ctx op b)"

section \<open>Voice\<close>

record Voice =
  voice_id :: string
  voice_pitch :: number
  voice_state :: PlayState
  voice_oscillatorBanks :: "OscillatorBank list"
  voice_adsr :: ADSR
  voice_gain :: GainNode

definition Voice_gainValue :: "Voice \<Rightarrow> number" where
  "Voice_gainValue v = gain_value (voice_gain v)"

text \<open>\<^verbatim>\<open>value || 0.0000000001\<close>: the literal stands in for a falsy value.\<close>

definition Voice_setGain :: "AudioContext \<Rightarrow> Voice \<Rightarrow> number \<Rightarrow> number option \<Rightarrow> Voice" where
  "Voice_setGain ctx v val time =
     v\<lparr>voice_gain := schedule (voice_gain v)
         (ExponentialRampToValueAtTime (if falsy val then tinyGain else val)
            (timeOrNow ctx time))\<rparr>"

definition Voice_connect :: "Voice \<Rightarrow> Voice" where
  "Voice_connect v = v\<lparr>voice_gain := schedule (voice_gain v) Connect\<rparr>"

text \<open>
  \<^verbatim>\<open>createOscillatorBank(layer, oscillators)\<close> pushes onto the array it is given; the
  voice is only read (\<^verbatim>\<open>_state\<close>, \<^verbatim>\<open>_pitch\<close>).
\<close>

definition createOscillatorBank ::
  "AudioContext \<Rightarrow> Voice \<Rightarrow> SpectralLayer \<Rightarrow> OscillatorBank list \<Rightarrow> OscillatorBank list" where
  "createOscillatorBank ctx v layer oscillators =
     (let newOscillator = OscillatorBank_new ctx layer;
          newOscillator1 =
            (if voice_state v = Playing
             then OscillatorBank_play ctx newOscillator (voice_pitch v) None
             else newOscillator)
      in oscillators @ [newOscillator1])"

text \<open>The default \<^verbatim>\<open>oscillators = this._oscillatorBanks\<close>.\<close>

definition Voice_createOscillatorBank :: "AudioContext \<Rightarrow> Voice \<Rightarrow> SpectralLayer \<Rightarrow> Voice" where
  "Voice_createOscillatorBank ctx v layer =
     v\<lparr>voice_oscillatorBanks := createOscillatorBank ctx v layer (voice_oscillatorBanks v)\<rparr>"

definition buildOscillatorBanks :: "AudioContext \<Rightarrow> Voice \<Rightarrow> Spectrum \<Rightarrow> OscillatorBank list" where
  "buildOscillatorBanks ctx v spectrum =
     fold (\<lambda>layer oscillators. createOscillatorBank ctx v layer oscillators) spectrum []"

text \<open>
  The constructor; \<open>rnd\<close> is what \<^verbatim>\<open>Math.random().toString(16)\<close> returns. An empty
  \<^verbatim>\<open>id\<close> is falsy.
\<close>

definition Voice_new ::
  "AudioContext \<Rightarrow> string \<Rightarrow> string option \<Rightarrow> Spectrum \<Rightarrow> ADSR \<Rightarrow> Voice" where
  "Voice_new ctx rnd ident spectrum adsr =
     (let v0 = \<lparr>voice_id = (case ident of None \<Rightarrow> rnd | Some s \<Rightarrow> if s = [] then rnd else s),
                voice_pitch = ofNat 20, voice_state = Ready, voice_oscillatorBanks = [],
                voice_adsr = adsr, voice_gain = createGain ctx\<rparr>;
          v1 = Voice_connect v0
      in v1\<lparr>voice_oscillatorBanks := buildOscillatorBanks ctx v1 spectrum\<rparr>)"

definition Voice_play :: "AudioContext \<Rightarrow> Voice \<Rightarrow> number \<Rightarrow> number \<Rightarrow> number option \<Rightarrow> Voice" where
  "Voice_play ctx v pitch velocity time =
     (if voice_state v = Used then v
      else
        let t = timeOrNow ctx time;
            v1 = v\<lparr>voice_pitch := pitch\<rparr>;
            v2 = (if voice_state v1 = Playing
                  then
                    let w1 = v1\<lparr>voice_gain := schedule (voice_gain v1) (CancelScheduledValues t)\<rparr>;
                        w2 = Voice_setGain ctx w1 (Voice_gainValue w1) (Some t)
                    in Voice_setGain ctx w2 (fmul velocity (sustain (voice_adsr w2))) (Some t)
                  else Voice_setGain ctx v1 (ofNat 0) None);
            v3 = v2\<lparr>voice_oscillatorBanks :=
                      map (\<lambda>bank. OscillatorBank_play ctx bank (voice_pitch v2) (Some t))
                        (voice_oscillatorBanks v2)\<rparr>;
            v4 = v3\<lparr>voice_state := Playing\<rparr>;
            timeAttackEnds = fadd t (attack (voice_adsr v4));
            v5 = Voice_setGain ctx v4 velocity (Some timeAttackEnds);
            timeDecayEnds = fadd timeAttackEnds (decay (voice_adsr v5))
        in Voice_setGain ctx v5 (fmul velocity (sustain (voice_adsr v5))) (Some timeDecayEnds))"

definition Voice_release :: "AudioContext \<Rightarrow> Voice \<Rightarrow> number option \<Rightarrow> Voice" where
  "Voice_release ctx v time =
     (let t = timeOrNow ctx time;
          v1 = v\<lparr>voice_gain := schedule (voice_gain v) (CancelScheduledValues t)\<rparr>;
          timeReleaseEnds = fadd t (release (voice_adsr v1));
          v2 = Voice_setGain ctx v1 (Voice_gainValue v1) (Some t)
      in Voice_setGain ctx v2 (ofNat 0) (Some timeReleaseEnds))"

text \<open>What \<^verbatim>\<open>get\<close> returns: \<^verbatim>\<open>undefined\<close>, a bank or an oscillator.\<close>

datatype GetResult = Undefined | GotBank OscillatorBank | GotOscillator Oscillator

definition falsyIndex :: "int option \<Rightarrow> bool" where
  "falsyIndex i = (case i of None \<Rightarrow> True | Some n \<Rightarrow> n = 0)"

definition Voice_get :: "Voice \<Rightarrow> Address \<Rightarrow> GetResult" where
  "Voice_get v address =
     (if falsyIndex (oscIndex address) then Undefined
      else
        let oscillatorBank = arrayAtInt (voice_oscillatorBanks v) (the (oscIndex address))
        in if falsyIndex (partialIndex address) \<or> oscillatorBank = None
           then (case oscillatorBank of None \<Rightarrow> Undefined | Some bank \<Rightarrow> GotBank bank)
           else (case OscillatorBank_oscillator (the oscillatorBank) (the (partialIndex address)) of
                   None \<Rightarrow> Undefined
                 | Some osc \<Rightarrow> GotOscillator osc))"

definition Voice_removeOscillatorBank ::
  "AudioContext \<Rightarrow> Voice \<Rightarrow> int \<Rightarrow> OscillatorBank option \<times> Voice" where
  "Voice_removeOscillatorBank ctx v index =
     (let (removed, rest) = splice (voice_oscillatorBanks v) index 1;
          v1 = v\<lparr>voice_oscillatorBanks := rest\<rparr>
      in case arrayAt removed 0 of
           None \<Rightarrow> (None, v1)
         | Some removedOscillatorBank \<Rightarrow>
             (Some (OscillatorBank_destroy ctx removedOscillatorBank), v1))"

definition voice_updateStep :: "Spectrum \<Rightarrow> nat \<Rightarrow> Voice \<Rightarrow> Voice" where
  "voice_updateStep spectrum i v =
     (case (arrayAt (voice_oscillatorBanks v) i, arrayAt spectrum i) of
        (Some bank, Some layer) \<Rightarrow>
          v\<lparr>voice_oscillatorBanks := (voice_oscillatorBanks v)[i := OscillatorBank_update bank layer]\<rparr>
      | _ \<Rightarrow> v)"

definition voice_removeStep :: "AudioContext \<Rightarrow> nat \<Rightarrow> nat \<Rightarrow> Voice \<Rightarrow> Voice" where
  "voice_removeStep ctx commonLength i v =
     snd (Voice_removeOscillatorBank ctx v (int commonLength))"

definition voice_createStep :: "AudioContext \<Rightarrow> Spectrum \<Rightarrow> nat \<Rightarrow> nat \<Rightarrow> Voice \<Rightarrow> Voice" where
  "voice_createStep ctx spectrum commonLength i v =
     (case arrayAt spectrum (commonLength + i) of
        None \<Rightarrow> v
      | Some bank \<Rightarrow> Voice_createOscillatorBank ctx v bank)"

definition Voice_update :: "AudioContext \<Rightarrow> Voice \<Rightarrow> Spectrum \<Rightarrow> Voice" where
  "Voice_update ctx v spectrum =
     (if voice_state v = Used then v
      else
        let commonLength = min (length (voice_oscillatorBanks v)) (length spectrum);
            difference = int (length (voice_oscillatorBanks v)) - int (length spectrum);
            v1 = fold (voice_updateStep spectrum) [0..<commonLength] v;
            v2 = (if difference > 0
                  then fold (voice_removeStep ctx commonLength) [0..<nat difference] v1 else v1);
            v3 = (if difference < 0
                  then fold (voice_createStep ctx spectrum commonLength) [0..<nat (- difference)] v2
                  else v2)
        in v3)"

definition Voice_updateAdsr :: "Voice \<Rightarrow> ADSR \<Rightarrow> Voice" where
  "Voice_updateAdsr v adsr = v\<lparr>voice_adsr := adsr\<rparr>"

definition Voice_getOscillators :: "Voice \<Rightarrow> Oscillator list" where
  "Voice_getOscillators v =
     fold (\<lambda>bank ps. ps @ bank_oscillators bank) (voice_oscillatorBanks v) []"

definition Voice_destroy :: "AudioContext \<Rightarrow> Voice \<Rightarrow> Voice" where
  "Voice_destroy ctx v =
     (let v1 = v\<lparr>voice_state := Used\<rparr>;
          v2 = v1\<lparr>voice_oscillatorBanks :=
                    map (\<lambda>bank. OscillatorBank_stop ctx bank None) (voice_oscillatorBanks v1)\<rparr>
      in v2\<lparr>voice_gain := schedule (voice_gain v2) Disconnect\<rparr>)"

text \<open>The descriptor list a voice currently realises.\<close>

definition Voice_spectrum :: "Voice \<Rightarrow> Spectrum" where
  "Voice_spectrum v = map OscillatorBank_layer (voice_oscillatorBanks v)"

section \<open>Derived notions\<close>

text \<open>
  The oscillator \<^verbatim>\<open>createOscillator\<close> appends: built from the partial and, when the bank
  is playing, played at the bank's pitch with no time given.
\<close>

definition createdOscillator :: "OscillatorBank \<Rightarrow> Partial \<Rightarrow> Oscillator" where
  "createdOscillator b p =
     (if bank_state b = Playing then Oscillator_play (Oscillator_new p) (bank_pitch b) None
      else Oscillator_new p)"

text \<open>The bank \<^verbatim>\<open>createOscillatorBank\<close> appends.\<close>

definition createdBank :: "AudioContext \<Rightarrow> Voice \<Rightarrow> SpectralLayer \<Rightarrow> OscillatorBank" where
  "createdBank ctx v layer =
     (if voice_state v = Playing
      then OscillatorBank_play ctx (OscillatorBank_new ctx layer) (voice_pitch v) None
      else OscillatorBank_new ctx layer)"

text \<open>
  The operations of a voice that change it, and a run of them, each with the clock at the
  call (\<^verbatim>\<open>get\<close> and \<^verbatim>\<open>getOscillators\<close> only read).
\<close>

datatype VoiceOp =
    VoicePlay number number "number option"
  | VoiceRelease "number option"
  | VoiceUpdate Spectrum
  | VoiceSetGain number "number option"
  | VoiceUpdateAdsr ADSR
  | VoiceDestroy

fun Voice_apply :: "AudioContext \<Rightarrow> VoiceOp \<Rightarrow> Voice \<Rightarrow> Voice" where
  "Voice_apply ctx (VoicePlay pitch velocity time) v = Voice_play ctx v pitch velocity time"
| "Voice_apply ctx (VoiceRelease time) v = Voice_release ctx v time"
| "Voice_apply ctx (VoiceUpdate spectrum) v = Voice_update ctx v spectrum"
| "Voice_apply ctx (VoiceSetGain val time) v = Voice_setGain ctx v val time"
| "Voice_apply ctx (VoiceUpdateAdsr adsr) v = Voice_updateAdsr v adsr"
| "Voice_apply ctx VoiceDestroy v = Voice_destroy ctx v"

fun Voice_run :: "(AudioContext \<times> VoiceOp) list \<Rightarrow> Voice \<Rightarrow> Voice" where
  "Voice_run [] v = v"
| "Voice_run ((ctx, op) # ops) v = Voice_run ops (Voice_apply ctx op v)"

subsection \<open>The scenarios of the specification\<close>

definition ctx0 :: AudioContext where
  "ctx0 = \<lparr>currentTime = ofNat 0\<rparr>"

definition partial100 :: Partial where
  "partial100 = \<lparr>rate = ofNat 100, amplitude = ofNat 1, phase = ofNat 0\<rparr>"

definition partial200 :: Partial where
  "partial200 = \<lparr>rate = ofNat 200, amplitude = ofNat 1, phase = ofNat 0\<rparr>"

text \<open>The envelope \<^verbatim>\<open>{attack: 0.1, decay: 0.1, sustain: 0.5, release: 0.2}\<close>.\<close>

definition scenarioAdsr :: ADSR where
  "scenarioAdsr =
     \<lparr>attack = roundToDouble False 1 10, decay = roundToDouble False 1 10,
      sustain = roundToDouble False 5 10, release = roundToDouble False 2 10\<rparr>"

text \<open>The voice of the \<^verbatim>\<open>play(440, 1, t=0)\<close> scenario: one layer, one partial.\<close>

definition scenarioVoice :: Voice where
  "scenarioVoice = Voice_new ctx0 ''0.8a3f'' None [\<lparr>partials = [partial100]\<rparr>] scenarioAdsr"

text \<open>A voice with three layers.\<close>

definition layeredVoice :: Voice where
  "layeredVoice =
     Voice_new ctx0 ''0.8a3f'' (Some ''lead'')
       [\<lparr>partials = [partial100]\<rparr>, \<lparr>partials = []\<rparr>, \<lparr>partials = [partial100, partial200]\<rparr>]
       scenarioAdsr"

text \<open>The bank of the \<^verbatim>\<open>removeOscillator(5)\<close> scenario: three oscillators.\<close>

definition scenarioBank :: OscillatorBank where
  "scenarioBank = OscillatorBank_new ctx0 \<lparr>partials = [partial100, partial200, partial100]\<rparr>"

text \<open>A percussive envelope: no sustain level.\<close>

definition pluckedAdsr :: ADSR where
  "pluckedAdsr =
     \<lparr>attack = roundToDouble False 1 10, decay = roundToDouble False 1 10,
      sustain = ofNat 0, release = roundToDouble False 2 10\<rparr>"

definition pluckedVoice :: Voice where
  "pluckedVoice = Voice_new ctx0 ''0.8a3f'' None [\<lparr>partials = [partial100]\<rparr>] pluckedAdsr"

text \<open>The scenario's bank while it plays.\<close>

definition playingBank :: OscillatorBank where
  "playingBank = OscillatorBank_play ctx0 scenarioBank (ofNat 220) None"

section \<open>Evaluating numbers\<close>

lemmas double_eval = roundToDouble_def roundScaled_def floorLog2_def bitLength.simps
  canonical.simps Let_def

lemma ofNat_0: "ofNat 0 = Finite False 0 0"
  by (simp add: ofNat_def roundToDouble_def)

lemma ofNat_1: "ofNat 1 = Finite False 1 0"
  by (simp add: ofNat_def double_eval)

lemma tinyGain_eq: "tinyGain = Finite False 7737125245533627 (- 86)"
  by (simp add: tinyGain_def double_eval)

lemma tenth: "roundToDouble False 1 10 = Finite False 3602879701896397 (- 55)"
  by (simp add: double_eval)

lemma fifth: "roundToDouble False 2 10 = Finite False 3602879701896397 (- 54)"
  by (simp add: double_eval)

lemma half: "roundToDouble False 5 10 = Finite False 1 (- 1)"
  by (simp add: double_eval)

lemma three_tenths: "roundToDouble False 3 10 = Finite False 5404319552844595 (- 54)"
  by (simp add: double_eval)

lemma zero_plus_tenth: "fadd (ofNat 0) (roundToDouble False 1 10) = roundToDouble False 1 10"
proof -
  have "fadd (Finite False 0 0) (Finite False 3602879701896397 (- 55))
      = roundScaled False 3602879701896397 (- 55)"
    by (simp add: Let_def)
  also have "\<dots> = Finite False 3602879701896397 (- 55)"
    by (simp add: double_eval)
  finally show ?thesis
    by (simp only: ofNat_0 tenth)
qed

lemma tenth_plus_tenth:
  "fadd (roundToDouble False 1 10) (roundToDouble False 1 10) = roundToDouble False 2 10"
proof -
  have "fadd (Finite False 3602879701896397 (- 55)) (Finite False 3602879701896397 (- 55))
      = roundScaled False 7205759403792794 (- 55)"
    by (simp add: Let_def)
  also have "\<dots> = Finite False 3602879701896397 (- 54)"
    by (simp add: double_eval)
  finally show ?thesis
    by (simp only: tenth fifth)
qed

lemma one_times_half: "fmul (ofNat 1) (roundToDouble False 5 10) = roundToDouble False 5 10"
proof -
  have "fmul (Finite False 1 0) (Finite False 1 (- 1)) = roundScaled False 1 (- 1)"
    by simp
  also have "\<dots> = Finite False 1 (- 1)"
    by (simp add: double_eval)
  finally show ?thesis
    by (simp only: ofNat_1 half)
qed

lemma one_times_zero: "fmul (ofNat 1) (ofNat 0) = ofNat 0"
proof -
  have "fmul (Finite False 1 0) (Finite False 0 0) = roundScaled False 0 0"
    by simp
  also have "\<dots> = Finite False 0 0"
    by (simp add: roundScaled_def roundToDouble_def)
  finally show ?thesis
    by (simp only: ofNat_1 ofNat_0)
qed

text \<open>
  The sum \<^verbatim>\<open>0.1 + 0.2\<close> is \<^verbatim>\<open>0.30000000000000004\<close>, not \<^verbatim>\<open>0.3\<close>.
\<close>

lemma tenth_plus_fifth:
  "fadd (roundToDouble False 1 10) (roundToDouble False 2 10)
     = roundToDouble False 30000000000000004 100000000000000000
   \<and> fadd (roundToDouble False 1 10) (roundToDouble False 2 10) \<noteq> roundToDouble False 3 10"
proof -
  have "fadd (Finite False 3602879701896397 (- 55)) (Finite False 3602879701896397 (- 54))
      = roundScaled False 10808639105689191 (- 55)"
    by (simp add: Let_def)
  also have "\<dots> = Finite False 1351079888211149 (- 52)"
    by (simp add: double_eval)
  finally have sum: "fadd (roundToDouble False 1 10) (roundToDouble False 2 10)
      = Finite False 1351079888211149 (- 52)"
    by (simp only: tenth fifth)
  have lit: "roundToDouble False 30000000000000004 100000000000000000
      = Finite False 1351079888211149 (- 52)"
    by (simp add: double_eval)
  show ?thesis
    unfolding sum lit three_tenths by simp
qed

lemma bitLength_power2: "bitLength (2 ^ k) = Suc k"
  by (induction k) (simp_all add: bitLength.simps)

lemma bitLength_0: "bitLength 0 = 0"
  by (simp add: bitLength.simps)

lemma canonical_0: "canonical 0 e = (0, 0)"
  by (simp add: canonical.simps)

text \<open>Half of the least positive value rounds to zero: a product can underflow.\<close>

lemma round_half_of_least: "roundToDouble s 1 (2 ^ 1075) = Finite s 0 0"
proof -
  have one: "bitLength 1 = 1"
    by (simp add: bitLength.simps)
  have fl: "floorLog2 1 (2 ^ 1075) = - 1075"
    unfolding floorLog2_def bitLength_power2 one by (simp del: power_numeral)
  have q: "max (floorLog2 1 (2 ^ 1075) - 52) (- 1074) = - 1074"
    unfolding fl by simp
  have p: "(2::nat) ^ 1075 = 2 * 2 ^ 1074"
    by (simp del: power_numeral add: power_Suc [symmetric])
  show ?thesis
    unfolding roundToDouble_def Let_def q
    by (simp del: power_numeral add: p bitLength_0 canonical_0)
qed

lemma product_underflows:
  "fmul (Finite False 1 (- 1074)) (Finite False 1 (- 1)) = Finite False 0 0"
proof -
  have "fmul (Finite False 1 (- 1074)) (Finite False 1 (- 1)) = roundScaled False 1 (- 1075)"
    by simp
  also have "\<dots> = roundToDouble False 1 (2 ^ 1075)"
    by (simp add: roundScaled_def del: power_numeral)
  finally show ?thesis
    by (simp only: round_half_of_least)
qed

lemma falsy_zero: "falsy (ofNat 0)"
  by (simp add: ofNat_0)

lemma truthy_one: "\<not> falsy (ofNat 1)"
  unfolding ofNat_1 by simp

lemma truthy_half: "\<not> falsy (roundToDouble False 5 10)"
  unfolding half by simp

lemma truthy_tinyGain: "\<not> falsy tinyGain"
  by (simp add: tinyGain_eq)


section \<open>Reconciliation: the loops of update\<close>

subsection \<open>OscillatorBank.update\<close>

lemma zip_update_step:
  assumes "n < length xs" "n < length ys"
  shows "(map2 f (take n xs) (take n ys) @ drop n xs)[n := f (xs ! n) (ys ! n)]
         = map2 f (take (Suc n) xs) (take (Suc n) ys) @ drop (Suc n) xs"
proof -
  have len: "length (map2 f (take n xs) (take n ys)) = n"
    using assms by simp
  have "drop n xs = xs ! n # drop (Suc n) xs"
    using assms(1) by (simp add: Cons_nth_drop_Suc)
  then show ?thesis
    using assms len by (simp add: list_update_append take_Suc_conv_app_nth)
qed

lemma zip_update_nth:
  assumes "n < length xs" "n \<le> length ys"
  shows "(map2 f (take n xs) (take n ys) @ drop n xs) ! n = xs ! n"
proof -
  have len: "length (map2 f (take n xs) (take n ys)) = n"
    using assms by simp
  show ?thesis
    using assms len by (simp add: nth_append)
qed

lemma bank_update_loop:
  "n \<le> length (bank_oscillators b) \<Longrightarrow> n \<le> length ps \<Longrightarrow>
   fold (bank_updateStep ps) [0..<n] b =
     b\<lparr>bank_oscillators :=
         map2 Oscillator_update (take n (bank_oscillators b)) (take n ps)
           @ drop n (bank_oscillators b)\<rparr>"
proof (induction n)
  case 0
  then show ?case by simp
next
  case (Suc n)
  then have lt: "n < length (bank_oscillators b)" "n < length ps" by simp_all
  let ?L = "map2 Oscillator_update (take n (bank_oscillators b)) (take n ps)
              @ drop n (bank_oscillators b)"
  have ih: "fold (bank_updateStep ps) [0..<n] b = b\<lparr>bank_oscillators := ?L\<rparr>"
    using Suc by simp
  have lenL: "length ?L = length (bank_oscillators b)"
    using lt by simp
  have nthL: "?L ! n = bank_oscillators b ! n"
    using lt by (intro zip_update_nth) simp_all
  have "fold (bank_updateStep ps) [0..<Suc n] b = bank_updateStep ps n (b\<lparr>bank_oscillators := ?L\<rparr>)"
    using ih by simp
  also have "\<dots> = b\<lparr>bank_oscillators := ?L[n := Oscillator_update (bank_oscillators b ! n) (ps ! n)]\<rparr>"
    using lt lenL nthL by (simp add: bank_updateStep_def arrayAt_def)
  also have "?L[n := Oscillator_update (bank_oscillators b ! n) (ps ! n)]
      = map2 Oscillator_update (take (Suc n) (bank_oscillators b)) (take (Suc n) ps)
           @ drop (Suc n) (bank_oscillators b)"
    using lt by (rule zip_update_step)
  finally show ?case .
qed

lemma splice_one_in_range:
  "c < length xs \<Longrightarrow> splice xs (int c) 1 = ([xs ! c], take c xs @ drop (Suc c) xs)"
  by (simp add: splice_def Let_def min_def max_def take_Suc_conv_app_nth
      Cons_nth_drop_Suc [symmetric])

lemma splice_one_beyond:
  "int (length xs) \<le> i \<Longrightarrow> splice xs i 1 = ([], xs)"
  by (simp add: splice_def Let_def min_def max_def)


lemma zip_take_left: "zip (take (length ys) xs) ys = zip xs ys"
  by (induction xs ys rule: list_induct2') simp_all

lemma zip_take_right: "zip xs (take (length xs) ys) = zip xs ys"
  by (induction xs ys rule: list_induct2') simp_all

lemma removeOscillator_in_range:
  "c < length (bank_oscillators b) \<Longrightarrow>
   OscillatorBank_removeOscillator b (int c) =
     (Some (Oscillator_destroy (bank_oscillators b ! c)),
      b\<lparr>bank_oscillators := take c (bank_oscillators b) @ drop (Suc c) (bank_oscillators b)\<rparr>)"
  by (simp add: OscillatorBank_removeOscillator_def splice_one_in_range arrayAt_def)

lemma removeOscillator_beyond:
  "int (length (bank_oscillators b)) \<le> i \<Longrightarrow> OscillatorBank_removeOscillator b i = (None, b)"
  by (simp add: OscillatorBank_removeOscillator_def splice_one_beyond arrayAt_def)

lemma bank_remove_loop:
  "c + k \<le> length (bank_oscillators b) \<Longrightarrow>
   fold (bank_removeStep c) [0..<k] b =
     b\<lparr>bank_oscillators := take c (bank_oscillators b) @ drop (c + k) (bank_oscillators b)\<rparr>"
proof (induction k)
  case 0
  then show ?case by simp
next
  case (Suc k)
  let ?L = "take c (bank_oscillators b) @ drop (c + k) (bank_oscillators b)"
  have ih: "fold (bank_removeStep c) [0..<k] b = b\<lparr>bank_oscillators := ?L\<rparr>"
    using Suc by simp
  have c: "c < length ?L" "c \<le> length (bank_oscillators b)"
    using Suc.prems by simp_all
  have "fold (bank_removeStep c) [0..<Suc k] b = bank_removeStep c k (b\<lparr>bank_oscillators := ?L\<rparr>)"
    using ih by simp
  also have "\<dots> = b\<lparr>bank_oscillators := take c ?L @ drop (Suc c) ?L\<rparr>"
    using c(1) by (simp add: bank_removeStep_def removeOscillator_in_range del: take_append drop_append)
  also have "take c ?L @ drop (Suc c) ?L
      = take c (bank_oscillators b) @ drop (c + Suc k) (bank_oscillators b)"
    using c(2) by (simp add: min_def)
  finally show ?case .
qed

lemma createOscillator_eq:
  "OscillatorBank_createOscillator b p =
     b\<lparr>bank_oscillators := bank_oscillators b @ [createdOscillator b p]\<rparr>"
  by (simp add: OscillatorBank_createOscillator_def createdOscillator_def Let_def)

lemma createdOscillator_cong:
  "bank_state b' = bank_state b \<Longrightarrow> bank_pitch b' = bank_pitch b \<Longrightarrow>
   createdOscillator b' = createdOscillator b"
  by (rule ext) (simp add: createdOscillator_def)

lemma bank_create_loop:
  "c + k \<le> length ps \<Longrightarrow>
   fold (bank_createStep ps c) [0..<k] b =
     b\<lparr>bank_oscillators := bank_oscillators b @ map (createdOscillator b) (take k (drop c ps))\<rparr>"
proof (induction k)
  case 0
  then show ?case by simp
next
  case (Suc k)
  let ?L = "bank_oscillators b @ map (createdOscillator b) (take k (drop c ps))"
  have ih: "fold (bank_createStep ps c) [0..<k] b = b\<lparr>bank_oscillators := ?L\<rparr>"
    using Suc by simp
  have lt: "c + k < length ps" using Suc.prems by simp
  have cr: "createdOscillator (b\<lparr>bank_oscillators := ?L\<rparr>) = createdOscillator b"
    by (rule createdOscillator_cong) simp_all
  have "fold (bank_createStep ps c) [0..<Suc k] b = bank_createStep ps c k (b\<lparr>bank_oscillators := ?L\<rparr>)"
    using ih by simp
  also have "\<dots> = b\<lparr>bank_oscillators := ?L @ [createdOscillator b (ps ! (c + k))]\<rparr>"
    using lt by (simp add: bank_createStep_def arrayAt_def createOscillator_eq cr)
  also have "?L @ [createdOscillator b (ps ! (c + k))]
      = bank_oscillators b @ map (createdOscillator b) (take (Suc k) (drop c ps))"
    using lt by (simp add: take_Suc_conv_app_nth)
  finally show ?case .
qed

lemma OscillatorBank_update_eq:
  "OscillatorBank_update b layer =
     b\<lparr>bank_oscillators :=
         map2 Oscillator_update (bank_oscillators b) (partials layer)
           @ map (createdOscillator b) (drop (length (bank_oscillators b)) (partials layer))\<rparr>"
proof -
  let ?os = "bank_oscillators b" and ?ps = "partials layer"
  let ?c = "min (length ?os) (length ?ps)"
  let ?b1 = "b\<lparr>bank_oscillators := map2 Oscillator_update (take ?c ?os) (take ?c ?ps) @ drop ?c ?os\<rparr>"
  have l1: "fold (bank_updateStep ?ps) [0..<?c] b = ?b1"
    by (rule bank_update_loop) simp_all
  consider (gt) "length ?os > length ?ps" | (lt) "length ?os < length ?ps" | (eq) "length ?os = length ?ps"
    by linarith
  then show ?thesis
  proof cases
    case gt
    have "OscillatorBank_update b layer
        = fold (bank_removeStep ?c) [0..<length ?os - length ?ps] (fold (bank_updateStep ?ps) [0..<?c] b)"
      using gt by (simp add: OscillatorBank_update_def Let_def nat_diff_distrib')
    also have "\<dots> = fold (bank_removeStep ?c) [0..<length ?os - length ?ps] ?b1"
      by (simp only: l1)
    also have "\<dots> = ?b1\<lparr>bank_oscillators := take ?c (bank_oscillators ?b1)
              @ drop (?c + (length ?os - length ?ps)) (bank_oscillators ?b1)\<rparr>"
      by (rule bank_remove_loop) (use gt in simp)
    also have "\<dots> = b\<lparr>bank_oscillators := map2 Oscillator_update ?os ?ps\<rparr>"
      using gt by (simp add: zip_take_left)
    finally show ?thesis
      using gt by simp
  next
    case lt
    have "OscillatorBank_update b layer
        = fold (bank_createStep ?ps ?c) [0..<length ?ps - length ?os] (fold (bank_updateStep ?ps) [0..<?c] b)"
      using lt by (simp add: OscillatorBank_update_def Let_def nat_diff_distrib')
    also have "\<dots> = fold (bank_createStep ?ps ?c) [0..<length ?ps - length ?os] ?b1"
      by (simp only: l1)
    also have "\<dots> = ?b1\<lparr>bank_oscillators := bank_oscillators ?b1
              @ map (createdOscillator ?b1) (take (length ?ps - length ?os) (drop ?c ?ps))\<rparr>"
      by (rule bank_create_loop) (use lt in simp)
    also have "createdOscillator ?b1 = createdOscillator b"
      by (rule createdOscillator_cong) simp_all
    finally show ?thesis
      using lt by (simp add: zip_take_right)
  next
    case eq
    have "OscillatorBank_update b layer = fold (bank_updateStep ?ps) [0..<?c] b"
      using eq by (simp add: OscillatorBank_update_def Let_def)
    also have "\<dots> = ?b1"
      by (simp only: l1)
    finally show ?thesis
      using eq by simp
  qed
qed


subsection \<open>Voice.update\<close>

lemma voice_update_loop:
  "n \<le> length (voice_oscillatorBanks v) \<Longrightarrow> n \<le> length spectrum \<Longrightarrow>
   fold (voice_updateStep spectrum) [0..<n] v =
     v\<lparr>voice_oscillatorBanks :=
         map2 OscillatorBank_update (take n (voice_oscillatorBanks v)) (take n spectrum)
           @ drop n (voice_oscillatorBanks v)\<rparr>"
proof (induction n)
  case 0
  then show ?case by simp
next
  case (Suc n)
  then have lt: "n < length (voice_oscillatorBanks v)" "n < length spectrum" by simp_all
  let ?L = "map2 OscillatorBank_update (take n (voice_oscillatorBanks v)) (take n spectrum)
              @ drop n (voice_oscillatorBanks v)"
  have ih: "fold (voice_updateStep spectrum) [0..<n] v = v\<lparr>voice_oscillatorBanks := ?L\<rparr>"
    using Suc by simp
  have lenL: "length ?L = length (voice_oscillatorBanks v)"
    using lt by simp
  have nthL: "?L ! n = voice_oscillatorBanks v ! n"
    using lt by (intro zip_update_nth) simp_all
  have "fold (voice_updateStep spectrum) [0..<Suc n] v
      = voice_updateStep spectrum n (v\<lparr>voice_oscillatorBanks := ?L\<rparr>)"
    using ih by simp
  also have "\<dots> = v\<lparr>voice_oscillatorBanks :=
      ?L[n := OscillatorBank_update (voice_oscillatorBanks v ! n) (spectrum ! n)]\<rparr>"
    using lt lenL nthL by (simp add: voice_updateStep_def arrayAt_def)
  also have "?L[n := OscillatorBank_update (voice_oscillatorBanks v ! n) (spectrum ! n)]
      = map2 OscillatorBank_update (take (Suc n) (voice_oscillatorBanks v)) (take (Suc n) spectrum)
           @ drop (Suc n) (voice_oscillatorBanks v)"
    using lt by (rule zip_update_step)
  finally show ?case .
qed

lemma removeOscillatorBank_in_range:
  "c < length (voice_oscillatorBanks v) \<Longrightarrow>
   Voice_removeOscillatorBank ctx v (int c) =
     (Some (OscillatorBank_destroy ctx (voice_oscillatorBanks v ! c)),
      v\<lparr>voice_oscillatorBanks :=
          take c (voice_oscillatorBanks v) @ drop (Suc c) (voice_oscillatorBanks v)\<rparr>)"
  by (simp add: Voice_removeOscillatorBank_def splice_one_in_range arrayAt_def)

lemma voice_remove_loop:
  "c + k \<le> length (voice_oscillatorBanks v) \<Longrightarrow>
   fold (voice_removeStep ctx c) [0..<k] v =
     v\<lparr>voice_oscillatorBanks :=
         take c (voice_oscillatorBanks v) @ drop (c + k) (voice_oscillatorBanks v)\<rparr>"
proof (induction k)
  case 0
  then show ?case by simp
next
  case (Suc k)
  let ?L = "take c (voice_oscillatorBanks v) @ drop (c + k) (voice_oscillatorBanks v)"
  have ih: "fold (voice_removeStep ctx c) [0..<k] v = v\<lparr>voice_oscillatorBanks := ?L\<rparr>"
    using Suc by simp
  have c: "c < length ?L" "c \<le> length (voice_oscillatorBanks v)"
    using Suc.prems by simp_all
  have "fold (voice_removeStep ctx c) [0..<Suc k] v
      = voice_removeStep ctx c k (v\<lparr>voice_oscillatorBanks := ?L\<rparr>)"
    using ih by simp
  also have "\<dots> = v\<lparr>voice_oscillatorBanks := take c ?L @ drop (Suc c) ?L\<rparr>"
    using c(1)
    by (simp add: voice_removeStep_def removeOscillatorBank_in_range del: take_append drop_append)
  also have "take c ?L @ drop (Suc c) ?L
      = take c (voice_oscillatorBanks v) @ drop (c + Suc k) (voice_oscillatorBanks v)"
    using c(2) by (simp add: min_def)
  finally show ?case .
qed

lemma createOscillatorBank_eq:
  "Voice_createOscillatorBank ctx v layer =
     v\<lparr>voice_oscillatorBanks := voice_oscillatorBanks v @ [createdBank ctx v layer]\<rparr>"
  by (simp add: Voice_createOscillatorBank_def createOscillatorBank_def createdBank_def Let_def)

lemma createdBank_cong:
  "voice_state v' = voice_state v \<Longrightarrow> voice_pitch v' = voice_pitch v \<Longrightarrow>
   createdBank ctx v' = createdBank ctx v"
  by (rule ext) (simp add: createdBank_def)

lemma voice_create_loop:
  "c + k \<le> length spectrum \<Longrightarrow>
   fold (voice_createStep ctx spectrum c) [0..<k] v =
     v\<lparr>voice_oscillatorBanks :=
         voice_oscillatorBanks v @ map (createdBank ctx v) (take k (drop c spectrum))\<rparr>"
proof (induction k)
  case 0
  then show ?case by simp
next
  case (Suc k)
  let ?L = "voice_oscillatorBanks v @ map (createdBank ctx v) (take k (drop c spectrum))"
  have ih: "fold (voice_createStep ctx spectrum c) [0..<k] v = v\<lparr>voice_oscillatorBanks := ?L\<rparr>"
    using Suc by simp
  have lt: "c + k < length spectrum" using Suc.prems by simp
  have cr: "createdBank ctx (v\<lparr>voice_oscillatorBanks := ?L\<rparr>) = createdBank ctx v"
    by (rule createdBank_cong) simp_all
  have "fold (voice_createStep ctx spectrum c) [0..<Suc k] v
      = voice_createStep ctx spectrum c k (v\<lparr>voice_oscillatorBanks := ?L\<rparr>)"
    using ih by simp
  also have "\<dots> = v\<lparr>voice_oscillatorBanks := ?L @ [createdBank ctx v (spectrum ! (c + k))]\<rparr>"
    using lt by (simp add: voice_createStep_def arrayAt_def createOscillatorBank_eq cr)
  also have "?L @ [createdBank ctx v (spectrum ! (c + k))]
      = voice_oscillatorBanks v @ map (createdBank ctx v) (take (Suc k) (drop c spectrum))"
    using lt by (simp add: take_Suc_conv_app_nth)
  finally show ?case .
qed

lemma Voice_update_eq:
  assumes "voice_state v \<noteq> Used"
  shows "Voice_update ctx v spectrum =
     v\<lparr>voice_oscillatorBanks :=
         map2 OscillatorBank_update (voice_oscillatorBanks v) spectrum
           @ map (createdBank ctx v) (drop (length (voice_oscillatorBanks v)) spectrum)\<rparr>"
proof -
  let ?os = "voice_oscillatorBanks v" and ?ps = "spectrum"
  let ?c = "min (length ?os) (length ?ps)"
  let ?v1 = "v\<lparr>voice_oscillatorBanks :=
      map2 OscillatorBank_update (take ?c ?os) (take ?c ?ps) @ drop ?c ?os\<rparr>"
  have l1: "fold (voice_updateStep ?ps) [0..<?c] v = ?v1"
    by (rule voice_update_loop) simp_all
  consider (gt) "length ?os > length ?ps" | (lt) "length ?os < length ?ps" | (eq) "length ?os = length ?ps"
    by linarith
  then show ?thesis
  proof cases
    case gt
    have "Voice_update ctx v spectrum
        = fold (voice_removeStep ctx ?c) [0..<length ?os - length ?ps]
            (fold (voice_updateStep ?ps) [0..<?c] v)"
      using gt assms by (simp add: Voice_update_def Let_def nat_diff_distrib')
    also have "\<dots> = fold (voice_removeStep ctx ?c) [0..<length ?os - length ?ps] ?v1"
      by (simp only: l1)
    also have "\<dots> = ?v1\<lparr>voice_oscillatorBanks := take ?c (voice_oscillatorBanks ?v1)
              @ drop (?c + (length ?os - length ?ps)) (voice_oscillatorBanks ?v1)\<rparr>"
      by (rule voice_remove_loop) (use gt in simp)
    also have "\<dots> = v\<lparr>voice_oscillatorBanks := map2 OscillatorBank_update ?os ?ps\<rparr>"
      using gt by (simp add: zip_take_left)
    finally show ?thesis
      using gt by simp
  next
    case lt
    have "Voice_update ctx v spectrum
        = fold (voice_createStep ctx ?ps ?c) [0..<length ?ps - length ?os]
            (fold (voice_updateStep ?ps) [0..<?c] v)"
      using lt assms by (simp add: Voice_update_def Let_def nat_diff_distrib')
    also have "\<dots> = fold (voice_createStep ctx ?ps ?c) [0..<length ?ps - length ?os] ?v1"
      by (simp only: l1)
    also have "\<dots> = ?v1\<lparr>voice_oscillatorBanks := voice_oscillatorBanks ?v1
              @ map (createdBank ctx ?v1) (take (length ?ps - length ?os) (drop ?c ?ps))\<rparr>"
      by (rule voice_create_loop) (use lt in simp)
    also have "createdBank ctx ?v1 = createdBank ctx v"
      by (rule createdBank_cong) simp_all
    finally show ?thesis
      using lt by (simp add: zip_take_right)
  next
    case eq
    have "Voice_update ctx v spectrum = fold (voice_updateStep ?ps) [0..<?c] v"
      using eq assms by (simp add: Voice_update_def Let_def)
    also have "\<dots> = ?v1"
      by (simp only: l1)
    finally show ?thesis
      using eq by simp
  qed
qed

subsection \<open>The reconciled collection\<close>

lemma reconciled_length:
  "length (map2 f xs ys @ map g (drop (length xs) ys)) = length ys"
  by simp

lemma reconciled_take:
  "take (min (length xs) (length ys)) (map2 f xs ys @ map g (drop (length xs) ys))
     = map2 f (take (min (length xs) (length ys)) xs) (take (min (length xs) (length ys)) ys)"
  by (simp add: take_zip [symmetric] take_map [symmetric])

lemma reconciled_drop:
  "drop (length xs) (map2 f xs ys @ map g (drop (length xs) ys)) = map g (drop (length xs) ys)"
  by (cases "length xs \<le> length ys") simp_all

lemma Oscillator_partial_update [simp]: "Oscillator_partial (Oscillator_update osc p) = p"
  by (simp add: Oscillator_partial_def Oscillator_update_def)

lemma Oscillator_partial_new [simp]: "Oscillator_partial (Oscillator_new p) = p"
  by (simp add: Oscillator_partial_def Oscillator_new_def)

lemma Oscillator_partial_play [simp]:
  "Oscillator_partial (Oscillator_play osc pitch t) = Oscillator_partial osc"
  by (simp add: Oscillator_partial_def Oscillator_play_def)

lemma Oscillator_partial_created [simp]: "Oscillator_partial (createdOscillator b p) = p"
  by (simp add: createdOscillator_def)

lemma reconciled_descriptors:
  assumes "\<And>x y. d (f x y) = y" "\<And>y. d (g y) = y"
  shows "map d (map2 f xs ys @ map g (drop (length xs) ys)) = ys"
proof -
  have "map d (map2 f xs ys) = take (length xs) ys"
    using assms(1) by (induction xs ys rule: list_induct2') simp_all
  moreover have "map d (map g (drop (length xs) ys)) = drop (length xs) ys"
    using assms(2) by (simp add: map_idI)
  ultimately show ?thesis by simp
qed

lemma OscillatorBank_layer_update: "OscillatorBank_layer (OscillatorBank_update b layer) = layer"
proof -
  have "map Oscillator_partial
          (map2 Oscillator_update (bank_oscillators b) (partials layer)
             @ map (createdOscillator b) (drop (length (bank_oscillators b)) (partials layer)))
        = partials layer"
    by (rule reconciled_descriptors) simp_all
  then have "partials (OscillatorBank_layer (OscillatorBank_update b layer)) = partials layer"
    by (simp add: OscillatorBank_layer_def OscillatorBank_update_eq)
  then show ?thesis
    by (cases layer) (simp add: OscillatorBank_layer_def)
qed

lemma buildOscillators_eq: "buildOscillators ps = map Oscillator_new ps"
proof -
  have "fold (\<lambda>partial oscillators. oscillators @ [Oscillator_new partial]) ps acc
      = acc @ map Oscillator_new ps" for acc
    by (induction ps arbitrary: acc) simp_all
  then show ?thesis by (simp add: buildOscillators_def)
qed

lemma bank_oscillators_new: "bank_oscillators (OscillatorBank_new ctx layer) = map Oscillator_new (partials layer)"
  by (simp add: OscillatorBank_new_def Let_def OscillatorBank_setGain_def OscillatorBank_connect_def
      buildOscillators_eq)

lemma OscillatorBank_layer_new: "OscillatorBank_layer (OscillatorBank_new ctx layer) = layer"
  by (simp add: OscillatorBank_layer_def bank_oscillators_new map_idI)

lemma OscillatorBank_layer_play:
  "OscillatorBank_layer (OscillatorBank_play ctx b pitch t) = OscillatorBank_layer b"
  by (simp add: OscillatorBank_layer_def OscillatorBank_play_def Let_def)

lemma OscillatorBank_layer_created: "OscillatorBank_layer (createdBank ctx v layer) = layer"
  by (simp add: createdBank_def OscillatorBank_layer_play OscillatorBank_layer_new)

lemma Voice_spectrum_update:
  "voice_state v \<noteq> Used \<Longrightarrow> Voice_spectrum (Voice_update ctx v spectrum) = spectrum"
proof -
  assume u: "voice_state v \<noteq> Used"
  have "map OscillatorBank_layer
          (map2 OscillatorBank_update (voice_oscillatorBanks v) spectrum
             @ map (createdBank ctx v) (drop (length (voice_oscillatorBanks v)) spectrum))
        = spectrum"
    by (rule reconciled_descriptors) (simp_all add: OscillatorBank_layer_update OscillatorBank_layer_created)
  then show ?thesis
    by (simp add: Voice_spectrum_def Voice_update_eq [OF u])
qed

lemma voice_state_new: "voice_state (Voice_new ctx rnd ident spectrum adsr) = Ready"
  by (simp add: Voice_new_def Let_def Voice_connect_def)

text \<open>
  Claim C1. \<^verbatim>\<open>update\<close> with \<open>M\<close> descriptors on a bank owning \<open>N\<close> oscillators leaves
  exactly \<open>M\<close> oscillators: the first \<open>min N M\<close> are the original ones, each updated in
  place with the descriptor at its index, and what lies beyond the original \<open>N\<close> are the
  oscillators created from descriptors \<open>N..M-1\<close>, in order; afterwards the bank realises the
  descriptor list it was given. The same holds for a voice that is not \<^verbatim>\<open>used\<close>, its banks
  and the layers of the spectrum. (A bank has no guard on its state.)
\<close>

theorem update_reconciles_children:
  "(length (bank_oscillators (OscillatorBank_update b layer)) = length (partials layer)
    \<and> take (min (length (bank_oscillators b)) (length (partials layer)))
          (bank_oscillators (OscillatorBank_update b layer))
        = map2 Oscillator_update
            (take (min (length (bank_oscillators b)) (length (partials layer))) (bank_oscillators b))
            (take (min (length (bank_oscillators b)) (length (partials layer))) (partials layer))
    \<and> drop (length (bank_oscillators b)) (bank_oscillators (OscillatorBank_update b layer))
        = map (createdOscillator b) (drop (length (bank_oscillators b)) (partials layer))
    \<and> OscillatorBank_layer (OscillatorBank_update b layer) = layer)
   \<and> (voice_state v \<noteq> Used \<longrightarrow>
        length (voice_oscillatorBanks (Voice_update ctx v spectrum)) = length spectrum
      \<and> take (min (length (voice_oscillatorBanks v)) (length spectrum))
            (voice_oscillatorBanks (Voice_update ctx v spectrum))
          = map2 OscillatorBank_update
              (take (min (length (voice_oscillatorBanks v)) (length spectrum)) (voice_oscillatorBanks v))
              (take (min (length (voice_oscillatorBanks v)) (length spectrum)) spectrum)
      \<and> drop (length (voice_oscillatorBanks v)) (voice_oscillatorBanks (Voice_update ctx v spectrum))
          = map (createdBank ctx v) (drop (length (voice_oscillatorBanks v)) spectrum)
      \<and> Voice_spectrum (Voice_update ctx v spectrum) = spectrum)"
proof (intro conjI impI)
  show "length (bank_oscillators (OscillatorBank_update b layer)) = length (partials layer)"
    using reconciled_length [of Oscillator_update "bank_oscillators b" "partials layer"]
    by (simp add: OscillatorBank_update_eq)
  show "take (min (length (bank_oscillators b)) (length (partials layer)))
          (bank_oscillators (OscillatorBank_update b layer))
        = map2 Oscillator_update
            (take (min (length (bank_oscillators b)) (length (partials layer))) (bank_oscillators b))
            (take (min (length (bank_oscillators b)) (length (partials layer))) (partials layer))"
    using reconciled_take [of "bank_oscillators b" "partials layer" Oscillator_update "createdOscillator b"]
    by (simp add: OscillatorBank_update_eq)
  show "drop (length (bank_oscillators b)) (bank_oscillators (OscillatorBank_update b layer))
        = map (createdOscillator b) (drop (length (bank_oscillators b)) (partials layer))"
    using reconciled_drop [of "bank_oscillators b" Oscillator_update "partials layer" "createdOscillator b"]
    by (simp add: OscillatorBank_update_eq)
  show "OscillatorBank_layer (OscillatorBank_update b layer) = layer"
    by (rule OscillatorBank_layer_update)
next
  assume u: "voice_state v \<noteq> Used"
  show "length (voice_oscillatorBanks (Voice_update ctx v spectrum)) = length spectrum"
    using reconciled_length [of OscillatorBank_update "voice_oscillatorBanks v" spectrum]
    by (simp add: Voice_update_eq [OF u])
  show "take (min (length (voice_oscillatorBanks v)) (length spectrum))
            (voice_oscillatorBanks (Voice_update ctx v spectrum))
          = map2 OscillatorBank_update
              (take (min (length (voice_oscillatorBanks v)) (length spectrum)) (voice_oscillatorBanks v))
              (take (min (length (voice_oscillatorBanks v)) (length spectrum)) spectrum)"
    using reconciled_take [of "voice_oscillatorBanks v" spectrum OscillatorBank_update "createdBank ctx v"]
    by (simp add: Voice_update_eq [OF u])
  show "drop (length (voice_oscillatorBanks v)) (voice_oscillatorBanks (Voice_update ctx v spectrum))
          = map (createdBank ctx v) (drop (length (voice_oscillatorBanks v)) spectrum)"
    using reconciled_drop [of "voice_oscillatorBanks v" OscillatorBank_update spectrum "createdBank ctx v"]
    by (simp add: Voice_update_eq [OF u])
  show "Voice_spectrum (Voice_update ctx v spectrum) = spectrum"
    using u by (rule Voice_spectrum_update)
qed

text \<open>
  The scenario of the specification: a voice with one bank, updated with two layers, the
  first of them empty; and a bank of three oscillators updated with one partial.
\<close>

theorem update_reconciles_children_witness:
  "voice_state scenarioVoice \<noteq> Used
   \<and> length (voice_oscillatorBanks
         (Voice_update ctx0 scenarioVoice [\<lparr>partials = []\<rparr>, \<lparr>partials = [partial200]\<rparr>])) = 2
   \<and> Voice_spectrum (Voice_update ctx0 scenarioVoice [\<lparr>partials = []\<rparr>, \<lparr>partials = [partial200]\<rparr>])
       = [\<lparr>partials = []\<rparr>, \<lparr>partials = [partial200]\<rparr>]
   \<and> length (bank_oscillators (OscillatorBank_update scenarioBank \<lparr>partials = [partial200]\<rparr>)) = 1"
  using update_reconciles_children [of scenarioBank "\<lparr>partials = [partial200]\<rparr>" scenarioVoice ctx0
          "[\<lparr>partials = []\<rparr>, \<lparr>partials = [partial200]\<rparr>]"]
  by (simp add: scenarioVoice_def voice_state_new)

section \<open>The scenarios\<close>

lemmas voice_new_defs = Voice_new_def Let_def Voice_connect_def createGain_def schedule_def
   buildOscillatorBanks_def createOscillatorBank_def OscillatorBank_new_def OscillatorBank_connect_def
   buildOscillators_def OscillatorBank_setGain_def timeOrNow_def Oscillator_new_def

lemma scenarioVoice_eq:
  "scenarioVoice =
     \<lparr>voice_id = ''0.8a3f'', voice_pitch = ofNat 20, voice_state = Ready,
      voice_oscillatorBanks =
        [\<lparr>bank_gain = \<lparr>gain_value = ofNat 1, gain_events = [Connect, LinearRampToValueAtTime (ofNat 1) (ofNat 0)]\<rparr>,
          bank_state = Ready, bank_pitch = ofNat 20,
          bank_oscillators = [\<lparr>osc_rate = ofNat 100, osc_amplitude = ofNat 1, osc_phase = ofNat 0, osc_calls = []\<rparr>]\<rparr>],
      voice_adsr = scenarioAdsr,
      voice_gain = \<lparr>gain_value = ofNat 1, gain_events = [Connect]\<rparr>\<rparr>"
  by (simp add: scenarioVoice_def ctx0_def partial100_def voice_new_defs)

lemma layeredVoice_banks:
  "voice_oscillatorBanks layeredVoice =
     [OscillatorBank_new ctx0 \<lparr>partials = [partial100]\<rparr>,
      OscillatorBank_new ctx0 \<lparr>partials = []\<rparr>,
      OscillatorBank_new ctx0 \<lparr>partials = [partial100, partial200]\<rparr>]"
  by (simp add: layeredVoice_def Voice_new_def Let_def Voice_connect_def buildOscillatorBanks_def
      createOscillatorBank_def)

lemma scenarioBank_oscillators:
  "bank_oscillators scenarioBank
     = [Oscillator_new partial100, Oscillator_new partial200, Oscillator_new partial100]"
  by (simp add: scenarioBank_def bank_oscillators_new)

lemma playingBank_eq:
  "playingBank =
     \<lparr>bank_gain = \<lparr>gain_value = ofNat 1, gain_events = [Connect, LinearRampToValueAtTime (ofNat 1) (ofNat 0)]\<rparr>,
      bank_state = Playing, bank_pitch = ofNat 220,
      bank_oscillators =
        [\<lparr>osc_rate = ofNat 100, osc_amplitude = ofNat 1, osc_phase = ofNat 0, osc_calls = [CallPlay (ofNat 220) (Some (ofNat 0))]\<rparr>,
         \<lparr>osc_rate = ofNat 200, osc_amplitude = ofNat 1, osc_phase = ofNat 0, osc_calls = [CallPlay (ofNat 220) (Some (ofNat 0))]\<rparr>,
         \<lparr>osc_rate = ofNat 100, osc_amplitude = ofNat 1, osc_phase = ofNat 0, osc_calls = [CallPlay (ofNat 220) (Some (ofNat 0))]\<rparr>]\<rparr>"
  by (simp add: playingBank_def scenarioBank_def OscillatorBank_play_def ctx0_def partial100_def
      partial200_def Oscillator_play_def voice_new_defs)

section \<open>Stopping and releasing\<close>

lemma OscillatorBank_stop_eq:
  "OscillatorBank_stop ctx b time =
     b\<lparr>bank_oscillators := map (\<lambda>osc. Oscillator_stop osc (timeOrNow ctx time)) (bank_oscillators b)\<rparr>"
  by (simp add: OscillatorBank_stop_def Let_def)

lemma voice_state_release: "voice_state (Voice_release ctx v time) = voice_state v"
  by (simp add: Voice_release_def Voice_setGain_def Let_def)

lemma voice_state_play:
  "voice_state v \<noteq> Used \<Longrightarrow> voice_state (Voice_play ctx v pitch velocity time) = Playing"
  by (simp add: Voice_play_def Let_def Voice_setGain_def)

text \<open>
  Claim C7. \<^verbatim>\<open>OscillatorBank.stop(time)\<close> leaves \<^verbatim>\<open>_state\<close> as it is and forwards
  \<^verbatim>\<open>stop(time)\<close>, with the very time it was given, to every oscillator; with no time given
  it forwards the reading of the clock. \<^verbatim>\<open>Voice.release(time)\<close> leaves \<^verbatim>\<open>_state\<close> as it
  is, so a voice that has been played has the same state after its release.
\<close>

theorem stop_release_keep_state:
  "bank_state (OscillatorBank_stop ctx b time) = bank_state b
   \<and> bank_oscillators (OscillatorBank_stop ctx b (Some t))
       = map (\<lambda>osc. Oscillator_stop osc t) (bank_oscillators b)
   \<and> bank_oscillators (OscillatorBank_stop ctx b None)
       = map (\<lambda>osc. Oscillator_stop osc (currentTime ctx)) (bank_oscillators b)
   \<and> voice_state (Voice_release ctx v time) = voice_state v
   \<and> voice_state (Voice_release ctx (Voice_play ctx' v' pitch velocity time') time)
       = voice_state (Voice_play ctx' v' pitch velocity time')"
  by (simp add: OscillatorBank_stop_eq voice_state_release timeOrNow_def)

text \<open>
  The scenario's bank while it plays, stopped at time 3 and stopped with no time given,
  the clock reading 7; the scenario's voice, played and released.
\<close>

theorem stop_release_keep_state_witness:
  "bank_state (OscillatorBank_stop \<lparr>currentTime = ofNat 7\<rparr> playingBank (Some (ofNat 3))) = Playing
   \<and> map osc_calls
        (bank_oscillators (OscillatorBank_stop \<lparr>currentTime = ofNat 7\<rparr> playingBank (Some (ofNat 3))))
       = [[CallPlay (ofNat 220) (Some (ofNat 0)), CallStop (ofNat 3)],
          [CallPlay (ofNat 220) (Some (ofNat 0)), CallStop (ofNat 3)],
          [CallPlay (ofNat 220) (Some (ofNat 0)), CallStop (ofNat 3)]]
   \<and> map osc_calls
        (bank_oscillators (OscillatorBank_stop \<lparr>currentTime = ofNat 7\<rparr> playingBank None))
       = [[CallPlay (ofNat 220) (Some (ofNat 0)), CallStop (ofNat 7)],
          [CallPlay (ofNat 220) (Some (ofNat 0)), CallStop (ofNat 7)],
          [CallPlay (ofNat 220) (Some (ofNat 0)), CallStop (ofNat 7)]]
   \<and> voice_state (Voice_play ctx0 scenarioVoice (ofNat 440) (ofNat 1) (Some (ofNat 0))) = Playing
   \<and> voice_state
        (Voice_release \<lparr>currentTime = ofNat 7\<rparr>
           (Voice_play ctx0 scenarioVoice (ofNat 440) (ofNat 1) (Some (ofNat 0)))
           (Some (ofNat 3))) = Playing"
  using stop_release_keep_state [of "\<lparr>currentTime = ofNat 7\<rparr>" playingBank "Some (ofNat 3)" "ofNat 3"
          scenarioVoice ctx0 scenarioVoice "ofNat 440" "ofNat 1" "Some (ofNat 0)"]
  by (simp add: playingBank_eq Oscillator_stop_def voice_state_play scenarioVoice_def voice_state_new)

section \<open>The states of a bank\<close>

lemma bank_state_removeOscillator: "bank_state (snd (OscillatorBank_removeOscillator b i)) = bank_state b"
  by (simp add: OscillatorBank_removeOscillator_def Let_def split: prod.splits option.splits)

lemma bank_state_update: "bank_state (OscillatorBank_update b layer) = bank_state b"
  by (simp add: OscillatorBank_update_eq)

lemma bank_state_apply: "bank_state b \<noteq> Used \<Longrightarrow> bank_state (OscillatorBank_apply ctx op b) \<noteq> Used"
  by (cases op)
    (simp_all add: OscillatorBank_play_def OscillatorBank_stop_def bank_state_update
      OscillatorBank_createOscillator_def bank_state_removeOscillator OscillatorBank_setGain_def
      OscillatorBank_shiftRate_def OscillatorBank_destroy_def OscillatorBank_disconnect_def Let_def)

lemma bank_state_run: "bank_state b \<noteq> Used \<Longrightarrow> bank_state (OscillatorBank_run ops b) \<noteq> Used"
proof (induction ops arbitrary: b)
  case Nil
  then show ?case by simp
next
  case (Cons x ops)
  obtain ctx op where x: "x = (ctx, op)" by (cases x)
  have "bank_state (OscillatorBank_apply ctx op b) \<noteq> Used"
    using Cons.prems by (rule bank_state_apply)
  then have "bank_state (OscillatorBank_run ops (OscillatorBank_apply ctx op b)) \<noteq> Used"
    by (rule Cons.IH)
  then show ?case by (simp add: x)
qed

lemma bank_state_new: "bank_state (OscillatorBank_new ctx layer) = Ready"
  by (simp add: OscillatorBank_new_def Let_def)

lemma OscillatorBank_play_eq:
  "bank_state b \<noteq> Used \<Longrightarrow>
   OscillatorBank_play ctx b pitch time =
     b\<lparr>bank_pitch := pitch,
       bank_oscillators :=
         map (\<lambda>osc. Oscillator_play osc pitch (Some (timeOrNow ctx time))) (bank_oscillators b),
       bank_state := Playing\<rparr>"
  by (simp add: OscillatorBank_play_def Let_def)

text \<open>
  Claim C8. After the constructor and any finite run of the public operations of a bank,
  \<^verbatim>\<open>_state\<close> is \<^verbatim>\<open>ready\<close> or \<^verbatim>\<open>playing\<close>: \<^verbatim>\<open>used\<close> is never assigned, and the guard of
  \<^verbatim>\<open>OscillatorBank.play\<close> is never taken, so \<^verbatim>\<open>play\<close> always has its effect.
\<close>

theorem bank_never_used:
  "bank_state (OscillatorBank_run ops (OscillatorBank_new ctx layer)) \<in> {Ready, Playing}
   \<and> OscillatorBank_play c (OscillatorBank_run ops (OscillatorBank_new ctx layer)) pitch time
       = (OscillatorBank_run ops (OscillatorBank_new ctx layer))
           \<lparr>bank_pitch := pitch,
            bank_oscillators :=
              map (\<lambda>osc. Oscillator_play osc pitch (Some (timeOrNow c time)))
                (bank_oscillators (OscillatorBank_run ops (OscillatorBank_new ctx layer))),
            bank_state := Playing\<rparr>"
proof -
  have u: "bank_state (OscillatorBank_run ops (OscillatorBank_new ctx layer)) \<noteq> Used"
    by (rule bank_state_run) (simp add: bank_state_new)
  then have "bank_state (OscillatorBank_run ops (OscillatorBank_new ctx layer)) \<in> {Ready, Playing}"
    by (cases "bank_state (OscillatorBank_run ops (OscillatorBank_new ctx layer))") simp_all
  then show ?thesis
    by (intro conjI OscillatorBank_play_eq [OF u])
qed

section \<open>A destroyed voice\<close>

lemma Voice_play_used: "voice_state v = Used \<Longrightarrow> Voice_play ctx v pitch velocity time = v"
  by (simp add: Voice_play_def)

lemma Voice_update_used: "voice_state v = Used \<Longrightarrow> Voice_update ctx v spectrum = v"
  by (simp add: Voice_update_def)

lemma voice_state_apply: "voice_state v = Used \<Longrightarrow> voice_state (Voice_apply ctx op v) = Used"
  by (cases op)
    (simp_all add: Voice_play_used Voice_update_used Voice_release_def Voice_setGain_def
      Voice_updateAdsr_def Voice_destroy_def Let_def)

lemma voice_state_run: "voice_state v = Used \<Longrightarrow> voice_state (Voice_run ops v) = Used"
proof (induction ops arbitrary: v)
  case Nil
  then show ?case by simp
next
  case (Cons x ops)
  obtain ctx op where x: "x = (ctx, op)" by (cases x)
  have "voice_state (Voice_apply ctx op v) = Used"
    using Cons.prems by (rule voice_state_apply)
  then have "voice_state (Voice_run ops (Voice_apply ctx op v)) = Used"
    by (rule Cons.IH)
  then show ?case by (simp add: x)
qed

lemma voice_state_destroy: "voice_state (Voice_destroy ctx v) = Used"
  by (simp add: Voice_destroy_def Let_def)

lemma Voice_destroy_used:
  "voice_state w = Used \<Longrightarrow>
   Voice_destroy c w =
     w\<lparr>voice_oscillatorBanks := map (\<lambda>bank. OscillatorBank_stop c bank None) (voice_oscillatorBanks w),
       voice_gain := schedule (voice_gain w) Disconnect\<rparr>"
  by (cases w) (simp add: Voice_destroy_def Let_def)

text \<open>
  Claim C2. Once \<^verbatim>\<open>destroy\<close> has been called on a voice, whatever is called afterwards, the
  state stays \<^verbatim>\<open>used\<close>, and every \<^verbatim>\<open>play\<close> and \<^verbatim>\<open>update\<close> returns the voice as it was:
  state, pitch, gain schedule and banks unchanged, nothing forwarded. A further
  \<^verbatim>\<open>destroy\<close> completes: it stops the banks and disconnects the gain stage once more.
  (Neither class has a \<^verbatim>\<open>throw\<close>; the host calls are total in this model.)
\<close>

theorem destroy_is_terminal:
  "voice_state (Voice_run ops (Voice_destroy ctx v)) = Used
   \<and> Voice_play c (Voice_run ops (Voice_destroy ctx v)) pitch velocity time
       = Voice_run ops (Voice_destroy ctx v)
   \<and> Voice_update c (Voice_run ops (Voice_destroy ctx v)) spectrum
       = Voice_run ops (Voice_destroy ctx v)
   \<and> Voice_destroy c (Voice_run ops (Voice_destroy ctx v))
       = (Voice_run ops (Voice_destroy ctx v))
           \<lparr>voice_oscillatorBanks :=
              map (\<lambda>bank. OscillatorBank_stop c bank None)
                (voice_oscillatorBanks (Voice_run ops (Voice_destroy ctx v))),
            voice_gain := schedule (voice_gain (Voice_run ops (Voice_destroy ctx v))) Disconnect\<rparr>"
proof -
  have u: "voice_state (Voice_run ops (Voice_destroy ctx v)) = Used"
    by (rule voice_state_run) (rule voice_state_destroy)
  show ?thesis
    by (intro conjI u Voice_play_used [OF u] Voice_update_used [OF u] Voice_destroy_used [OF u])
qed



section \<open>Addressing\<close>

text \<open>
  Claim C4. \<^verbatim>\<open>get({oscIndex, partialIndex})\<close> is \<^verbatim>\<open>undefined\<close> when \<^verbatim>\<open>oscIndex\<close> is absent or
  0, and when there is no bank at \<^verbatim>\<open>oscIndex\<close>; it is the bank at \<^verbatim>\<open>oscIndex\<close> when
  \<^verbatim>\<open>partialIndex\<close> is absent or 0; otherwise it is what \<^verbatim>\<open>oscillator(partialIndex)\<close> of
  that bank returns. So \<^verbatim>\<open>get({oscIndex: 0})\<close> is \<^verbatim>\<open>undefined\<close> and
  \<^verbatim>\<open>get({oscIndex: 2, partialIndex: 0})\<close> is the bank at index 2.
\<close>

theorem Voice_get_addressing:
  "(oscIndex a = None \<or> oscIndex a = Some 0 \<longrightarrow> Voice_get v a = Undefined)
   \<and> (oscIndex a = Some i \<and> i \<noteq> 0 \<and> arrayAtInt (voice_oscillatorBanks v) i = None
        \<longrightarrow> Voice_get v a = Undefined)
   \<and> (oscIndex a = Some i \<and> i \<noteq> 0 \<and> arrayAtInt (voice_oscillatorBanks v) i = Some bank
        \<and> (partialIndex a = None \<or> partialIndex a = Some 0)
        \<longrightarrow> Voice_get v a = GotBank bank)
   \<and> (oscIndex a = Some i \<and> i \<noteq> 0 \<and> arrayAtInt (voice_oscillatorBanks v) i = Some bank
        \<and> partialIndex a = Some j \<and> j \<noteq> 0
        \<longrightarrow> Voice_get v a
            = (case OscillatorBank_oscillator bank j of
                 None \<Rightarrow> Undefined | Some osc \<Rightarrow> GotOscillator osc))
   \<and> Voice_get v \<lparr>oscIndex = Some 0, partialIndex = pidx\<rparr> = Undefined
   \<and> (2 < length (voice_oscillatorBanks v)
        \<longrightarrow> Voice_get v \<lparr>oscIndex = Some 2, partialIndex = Some 0\<rparr>
            = GotBank (voice_oscillatorBanks v ! 2))"
  by (auto simp: Voice_get_def falsyIndex_def arrayAtInt_def arrayAt_def Let_def split: option.splits)




text \<open>Every case of the addressing, on a voice with three layers.\<close>

theorem Voice_get_addressing_witness:
  "Voice_get layeredVoice \<lparr>oscIndex = None, partialIndex = Some 1\<rparr> = Undefined
   \<and> Voice_get layeredVoice \<lparr>oscIndex = Some 0, partialIndex = Some 1\<rparr> = Undefined
   \<and> Voice_get layeredVoice \<lparr>oscIndex = Some 3, partialIndex = None\<rparr> = Undefined
   \<and> Voice_get layeredVoice \<lparr>oscIndex = Some 1, partialIndex = None\<rparr>
       = GotBank (OscillatorBank_new ctx0 \<lparr>partials = []\<rparr>)
   \<and> Voice_get layeredVoice \<lparr>oscIndex = Some 2, partialIndex = Some 1\<rparr>
       = GotOscillator (Oscillator_new partial200)
   \<and> Voice_get layeredVoice \<lparr>oscIndex = Some 2, partialIndex = Some 0\<rparr>
       = GotBank (OscillatorBank_new ctx0 \<lparr>partials = [partial100, partial200]\<rparr>)"
  using Voice_get_addressing [of "\<lparr>oscIndex = None, partialIndex = Some 1\<rparr>" layeredVoice 0
          "OscillatorBank_new ctx0 \<lparr>partials = []\<rparr>" 0 "Some 1"]
        Voice_get_addressing [of "\<lparr>oscIndex = Some 3, partialIndex = None\<rparr>" layeredVoice 3
          "OscillatorBank_new ctx0 \<lparr>partials = []\<rparr>" 0 "Some 1"]
        Voice_get_addressing [of "\<lparr>oscIndex = Some 1, partialIndex = None\<rparr>" layeredVoice 1
          "OscillatorBank_new ctx0 \<lparr>partials = []\<rparr>" 0 "Some 1"]
        Voice_get_addressing [of "\<lparr>oscIndex = Some 2, partialIndex = Some 1\<rparr>" layeredVoice 2
          "OscillatorBank_new ctx0 \<lparr>partials = [partial100, partial200]\<rparr>" 1 "Some 1"]
  by (simp add: layeredVoice_banks arrayAtInt_def arrayAt_def OscillatorBank_oscillator_def
      bank_oscillators_new)

section \<open>Removing an oscillator\<close>

lemma splice_one_negative:
  "1 \<le> k \<Longrightarrow> k \<le> length xs \<Longrightarrow> splice xs (- int k) 1 = splice xs (int (length xs - k)) 1"
  by (simp add: splice_def Let_def min_def max_def of_nat_diff)

lemma splice_one_far_negative:
  "length xs < k \<Longrightarrow> splice xs (- int k) 1 = splice xs (int 0) 1"
  by (simp add: splice_def Let_def min_def max_def)

lemma removeOscillator_splice_cong:
  "splice (bank_oscillators b) i 1 = splice (bank_oscillators b) j 1 \<Longrightarrow>
   OscillatorBank_removeOscillator b i = OscillatorBank_removeOscillator b j"
  by (simp add: OscillatorBank_removeOscillator_def)

lemma removeOscillator_empty:
  "bank_oscillators b = [] \<Longrightarrow> OscillatorBank_removeOscillator b i = (None, b)"
  by (simp add: OscillatorBank_removeOscillator_def splice_def arrayAt_def)

text \<open>
  Claim C5, amended. \<^verbatim>\<open>removeOscillator(index)\<close> returns \<^verbatim>\<open>undefined\<close> and leaves the bank
  unchanged when the bank is empty (\<open>N = 0\<close>) or \<open>index \<ge> N\<close>; with \<open>0 \<le> index < N\<close> it
  removes the oscillator at \<open>index\<close>, destroys it and returns it. (As stated, for every
  index outside \<open>[0, N)\<close>, the claim fails on the negative indices of a bank that is not
  empty: \<^verbatim>\<open>splice\<close> counts them from the end.)
\<close>

theorem removeOscillator_by_index:
  "(bank_oscillators b = [] \<or> int (length (bank_oscillators b)) \<le> index \<longrightarrow>
      OscillatorBank_removeOscillator b index = (None, b))
   \<and> (0 \<le> index \<and> index < int (length (bank_oscillators b)) \<longrightarrow>
      OscillatorBank_removeOscillator b index =
        (Some (Oscillator_destroy (bank_oscillators b ! nat index)),
         b\<lparr>bank_oscillators :=
             take (nat index) (bank_oscillators b) @ drop (Suc (nat index)) (bank_oscillators b)\<rparr>))"
proof (intro conjI impI)
  assume "bank_oscillators b = [] \<or> int (length (bank_oscillators b)) \<le> index"
  then show "OscillatorBank_removeOscillator b index = (None, b)"
    using removeOscillator_empty [of b index] removeOscillator_beyond [of b index] by blast
next
  assume "0 \<le> index \<and> index < int (length (bank_oscillators b))"
  then have "nat index < length (bank_oscillators b)" "index = int (nat index)"
    by linarith+
  then show "OscillatorBank_removeOscillator b index =
        (Some (Oscillator_destroy (bank_oscillators b ! nat index)),
         b\<lparr>bank_oscillators :=
             take (nat index) (bank_oscillators b) @ drop (Suc (nat index)) (bank_oscillators b)\<rparr>)"
    using removeOscillator_in_range [of "nat index" b] by simp
qed

text \<open>
  \<^verbatim>\<open>removeOscillator(5)\<close> and \<^verbatim>\<open>removeOscillator(1)\<close> on a bank of three oscillators;
  \<^verbatim>\<open>removeOscillator(-1)\<close> and \<^verbatim>\<open>removeOscillator(0)\<close> on an empty bank.
\<close>

theorem removeOscillator_by_index_witness:
  "OscillatorBank_removeOscillator scenarioBank 5 = (None, scenarioBank)
   \<and> OscillatorBank_removeOscillator scenarioBank 1 =
       (Some (Oscillator_destroy (Oscillator_new partial200)),
        scenarioBank\<lparr>bank_oscillators := [Oscillator_new partial100, Oscillator_new partial100]\<rparr>)
   \<and> OscillatorBank_removeOscillator (OscillatorBank_new ctx0 \<lparr>partials = []\<rparr>) (- 1)
       = (None, OscillatorBank_new ctx0 \<lparr>partials = []\<rparr>)
   \<and> OscillatorBank_removeOscillator (OscillatorBank_new ctx0 \<lparr>partials = []\<rparr>) 0
       = (None, OscillatorBank_new ctx0 \<lparr>partials = []\<rparr>)"
  using removeOscillator_by_index [of scenarioBank 5] removeOscillator_by_index [of scenarioBank 1]
        removeOscillator_by_index [of "OscillatorBank_new ctx0 \<lparr>partials = []\<rparr>" "- 1"]
        removeOscillator_by_index [of "OscillatorBank_new ctx0 \<lparr>partials = []\<rparr>" 0]
  by (simp add: scenarioBank_oscillators bank_oscillators_new)

text \<open>
  Claim C5 as stated fails at index \<open>-1\<close>, which is outside \<open>[0, 3)\<close>: an oscillator is
  returned and the collection changes.
\<close>

theorem removeOscillator_negative_counterexample:
  "(- 1 :: int) \<notin> {0..<int (length (bank_oscillators scenarioBank))}
   \<and> fst (OscillatorBank_removeOscillator scenarioBank (- 1)) \<noteq> None
   \<and> bank_oscillators (snd (OscillatorBank_removeOscillator scenarioBank (- 1)))
       \<noteq> bank_oscillators scenarioBank"
  by (simp add: OscillatorBank_removeOscillator_def splice_def Let_def arrayAt_def
      scenarioBank_oscillators)

text \<open>
  Claim C9. On a bank with \<open>N \<ge> 1\<close> oscillators, \<^verbatim>\<open>removeOscillator(-k)\<close> with
  \<open>1 \<le> k \<le> N\<close> removes, destroys and returns the oscillator at position \<open>N - k\<close>; with
  \<open>k > N\<close> the first one; in particular \<^verbatim>\<open>removeOscillator(-1)\<close> the last one.
\<close>

theorem removeOscillator_negative_index:
  "(1 \<le> k \<and> k \<le> length (bank_oscillators b) \<longrightarrow>
      OscillatorBank_removeOscillator b (- int k) =
        (Some (Oscillator_destroy (bank_oscillators b ! (length (bank_oscillators b) - k))),
         b\<lparr>bank_oscillators :=
             take (length (bank_oscillators b) - k) (bank_oscillators b)
               @ drop (Suc (length (bank_oscillators b) - k)) (bank_oscillators b)\<rparr>))
   \<and> (length (bank_oscillators b) < k \<and> bank_oscillators b \<noteq> [] \<longrightarrow>
      OscillatorBank_removeOscillator b (- int k) =
        (Some (Oscillator_destroy (hd (bank_oscillators b))),
         b\<lparr>bank_oscillators := tl (bank_oscillators b)\<rparr>))
   \<and> (bank_oscillators b \<noteq> [] \<longrightarrow>
      OscillatorBank_removeOscillator b (- 1) =
        (Some (Oscillator_destroy (last (bank_oscillators b))),
         b\<lparr>bank_oscillators := butlast (bank_oscillators b)\<rparr>))"
proof (intro conjI impI)
  assume k: "1 \<le> k \<and> k \<le> length (bank_oscillators b)"
  then have "OscillatorBank_removeOscillator b (- int k)
      = OscillatorBank_removeOscillator b (int (length (bank_oscillators b) - k))"
    by (intro removeOscillator_splice_cong splice_one_negative) simp_all
  also have "\<dots> = (Some (Oscillator_destroy (bank_oscillators b ! (length (bank_oscillators b) - k))),
         b\<lparr>bank_oscillators :=
             take (length (bank_oscillators b) - k) (bank_oscillators b)
               @ drop (Suc (length (bank_oscillators b) - k)) (bank_oscillators b)\<rparr>)"
    by (rule removeOscillator_in_range) (use k in linarith)
  finally show "OscillatorBank_removeOscillator b (- int k) =
        (Some (Oscillator_destroy (bank_oscillators b ! (length (bank_oscillators b) - k))),
         b\<lparr>bank_oscillators :=
             take (length (bank_oscillators b) - k) (bank_oscillators b)
               @ drop (Suc (length (bank_oscillators b) - k)) (bank_oscillators b)\<rparr>)" .
next
  assume k: "length (bank_oscillators b) < k \<and> bank_oscillators b \<noteq> []"
  then have "OscillatorBank_removeOscillator b (- int k) = OscillatorBank_removeOscillator b (int 0)"
    by (intro removeOscillator_splice_cong splice_one_far_negative) simp
  also have "\<dots> = (Some (Oscillator_destroy (bank_oscillators b ! 0)),
         b\<lparr>bank_oscillators := take 0 (bank_oscillators b) @ drop (Suc 0) (bank_oscillators b)\<rparr>)"
    by (rule removeOscillator_in_range) (use k in simp)
  finally show "OscillatorBank_removeOscillator b (- int k) =
        (Some (Oscillator_destroy (hd (bank_oscillators b))),
         b\<lparr>bank_oscillators := tl (bank_oscillators b)\<rparr>)"
    using k by (simp add: hd_conv_nth drop_Suc)
next
  assume ne: "bank_oscillators b \<noteq> []"
  let ?n = "length (bank_oscillators b)"
  have "OscillatorBank_removeOscillator b (- int 1) = OscillatorBank_removeOscillator b (int (?n - 1))"
    by (intro removeOscillator_splice_cong splice_one_negative) (use ne in \<open>simp_all add: Suc_le_eq\<close>)
  also have "\<dots> = (Some (Oscillator_destroy (bank_oscillators b ! (?n - 1))),
         b\<lparr>bank_oscillators := take (?n - 1) (bank_oscillators b) @ drop (Suc (?n - 1)) (bank_oscillators b)\<rparr>)"
    by (rule removeOscillator_in_range) (use ne in simp)
  finally show "OscillatorBank_removeOscillator b (- 1) =
        (Some (Oscillator_destroy (last (bank_oscillators b))),
         b\<lparr>bank_oscillators := butlast (bank_oscillators b)\<rparr>)"
    using ne by (simp add: last_conv_nth butlast_conv_take)
qed

text \<open>Indices \<open>-1\<close>, \<open>-2\<close> and \<open>-7\<close> on a bank of three oscillators.\<close>

theorem removeOscillator_negative_index_witness:
  "OscillatorBank_removeOscillator scenarioBank (- 1) =
     (Some (Oscillator_destroy (Oscillator_new partial100)),
      scenarioBank\<lparr>bank_oscillators := [Oscillator_new partial100, Oscillator_new partial200]\<rparr>)
   \<and> OscillatorBank_removeOscillator scenarioBank (- 2) =
     (Some (Oscillator_destroy (Oscillator_new partial200)),
      scenarioBank\<lparr>bank_oscillators := [Oscillator_new partial100, Oscillator_new partial100]\<rparr>)
   \<and> OscillatorBank_removeOscillator scenarioBank (- 7) =
     (Some (Oscillator_destroy (Oscillator_new partial100)),
      scenarioBank\<lparr>bank_oscillators := [Oscillator_new partial200, Oscillator_new partial100]\<rparr>)"
  using removeOscillator_negative_index [of 2 scenarioBank]
        removeOscillator_negative_index [of 7 scenarioBank]
  by (simp add: scenarioBank_oscillators)

section \<open>Playing a ready voice\<close>

lemma Voice_setGain_eq:
  "Voice_setGain ctx v val time =
     v\<lparr>voice_gain := (voice_gain v)\<lparr>gain_events := gain_events (voice_gain v)
        @ [ExponentialRampToValueAtTime (if falsy val then tinyGain else val)
             (timeOrNow ctx time)]\<rparr>\<rparr>"
  by (simp add: Voice_setGain_def schedule_def)

lemma Voice_play_ready:
  assumes "voice_state v = Ready"
  shows "Voice_play ctx v pitch velocity time =
     v\<lparr>voice_pitch := pitch,
       voice_oscillatorBanks :=
         map (\<lambda>bank. OscillatorBank_play ctx bank pitch (Some (timeOrNow ctx time)))
           (voice_oscillatorBanks v),
       voice_state := Playing,
       voice_gain := (voice_gain v)\<lparr>gain_events := gain_events (voice_gain v)
         @ [ExponentialRampToValueAtTime tinyGain (currentTime ctx),
            ExponentialRampToValueAtTime (if falsy velocity then tinyGain else velocity)
              (fadd (timeOrNow ctx time) (attack (voice_adsr v))),
            ExponentialRampToValueAtTime
              (if falsy (fmul velocity (sustain (voice_adsr v))) then tinyGain
               else fmul velocity (sustain (voice_adsr v)))
              (fadd (fadd (timeOrNow ctx time) (attack (voice_adsr v))) (decay (voice_adsr v)))]\<rparr>\<rparr>"
  using assms by (simp add: Voice_play_def Let_def Voice_setGain_eq falsy_zero timeOrNow_def)

lemma scenarioVoice_facts:
  "voice_state scenarioVoice = Ready"
  "voice_oscillatorBanks scenarioVoice = [OscillatorBank_new ctx0 \<lparr>partials = [partial100]\<rparr>]"
  "gain_events (voice_gain scenarioVoice) = [Connect]"
  "voice_adsr scenarioVoice = scenarioAdsr"
  by (simp_all add: scenarioVoice_def Voice_new_def Let_def Voice_connect_def buildOscillatorBanks_def
      createOscillatorBank_def createGain_def schedule_def)

lemma scenario_play:
  "Voice_play ctx0 scenarioVoice (ofNat 440) (ofNat 1) (Some (ofNat 0)) =
     scenarioVoice
       \<lparr>voice_pitch := ofNat 440,
        voice_oscillatorBanks :=
          [OscillatorBank_play ctx0 (OscillatorBank_new ctx0 \<lparr>partials = [partial100]\<rparr>) (ofNat 440)
             (Some (ofNat 0))],
        voice_state := Playing,
        voice_gain := (voice_gain scenarioVoice)\<lparr>gain_events :=
          [Connect,
           ExponentialRampToValueAtTime tinyGain (ofNat 0),
           ExponentialRampToValueAtTime (ofNat 1) (roundToDouble False 1 10),
           ExponentialRampToValueAtTime (roundToDouble False 5 10) (roundToDouble False 2 10)]\<rparr>\<rparr>"
proof -
  have t: "timeOrNow ctx0 (Some (ofNat 0)) = ofNat 0" "currentTime ctx0 = ofNat 0"
    by (simp_all add: timeOrNow_def ctx0_def)
  have a: "attack scenarioAdsr = roundToDouble False 1 10"
    "decay scenarioAdsr = roundToDouble False 1 10"
    "sustain scenarioAdsr = roundToDouble False 5 10"
    by (simp_all add: scenarioAdsr_def)
  show ?thesis
    unfolding Voice_play_ready [OF scenarioVoice_facts(1)] scenarioVoice_facts(2-4) t a
      zero_plus_tenth tenth_plus_tenth one_times_half
    using truthy_one truthy_half by simp
qed

text \<open>
  Claim C3, amended. On a voice in state \<^verbatim>\<open>ready\<close>, \<^verbatim>\<open>play(pitch, velocity, time)\<close> records
  the pitch, forwards \<^verbatim>\<open>play(pitch, time)\<close> to every bank, sets the state to \<^verbatim>\<open>playing\<close>, and
  schedules on the gain stage a ramp to \<^verbatim>\<open>0.0000000001\<close> at the current time, then a ramp to
  \<^verbatim>\<open>velocity\<close> ending at \<^verbatim>\<open>time + attack\<close>, then a ramp to \<^verbatim>\<open>velocity * sustain\<close> ending at
  \<^verbatim>\<open>(time + attack) + decay\<close>, where the sums and the product are those of binary64 and a
  target that is falsy (\<open>+0\<close>, \<open>-0\<close> or NaN, so also a product that underflows) is replaced
  by \<^verbatim>\<open>0.0000000001\<close>; with no time given, \<^verbatim>\<open>time\<close> is the reading of the clock. In the
  scenario (attack 0.1, decay 0.1, sustain 0.5, \<^verbatim>\<open>play(440, 1, 0)\<close>) the ramps are to 1 ending
  at 0.1 and to 0.5 ending at 0.2, the state is \<^verbatim>\<open>playing\<close>, and the one bank receives
  \<^verbatim>\<open>play(440, 0)\<close>.
\<close>

theorem play_from_ready:
  "(voice_state v = Ready \<longrightarrow>
      voice_pitch (Voice_play ctx v pitch velocity (Some t)) = pitch
    \<and> voice_oscillatorBanks (Voice_play ctx v pitch velocity (Some t))
        = map (\<lambda>bank. OscillatorBank_play ctx bank pitch (Some t)) (voice_oscillatorBanks v)
    \<and> voice_state (Voice_play ctx v pitch velocity (Some t)) = Playing
    \<and> gain_events (voice_gain (Voice_play ctx v pitch velocity (Some t)))
        = gain_events (voice_gain v)
          @ [ExponentialRampToValueAtTime tinyGain (currentTime ctx),
             ExponentialRampToValueAtTime (if falsy velocity then tinyGain else velocity)
               (fadd t (attack (voice_adsr v))),
             ExponentialRampToValueAtTime
               (if falsy (fmul velocity (sustain (voice_adsr v))) then tinyGain
                else fmul velocity (sustain (voice_adsr v)))
               (fadd (fadd t (attack (voice_adsr v))) (decay (voice_adsr v)))]
    \<and> Voice_play ctx v pitch velocity None = Voice_play ctx v pitch velocity (Some (currentTime ctx)))
   \<and> voice_state scenarioVoice = Ready
   \<and> voice_state (Voice_play ctx0 scenarioVoice (ofNat 440) (ofNat 1) (Some (ofNat 0))) = Playing
   \<and> voice_pitch (Voice_play ctx0 scenarioVoice (ofNat 440) (ofNat 1) (Some (ofNat 0))) = ofNat 440
   \<and> gain_events (voice_gain (Voice_play ctx0 scenarioVoice (ofNat 440) (ofNat 1) (Some (ofNat 0))))
       = [Connect,
          ExponentialRampToValueAtTime tinyGain (ofNat 0),
          ExponentialRampToValueAtTime (ofNat 1) (roundToDouble False 1 10),
          ExponentialRampToValueAtTime (roundToDouble False 5 10) (roundToDouble False 2 10)]
   \<and> voice_oscillatorBanks (Voice_play ctx0 scenarioVoice (ofNat 440) (ofNat 1) (Some (ofNat 0)))
       = [OscillatorBank_play ctx0 (OscillatorBank_new ctx0 \<lparr>partials = [partial100]\<rparr>) (ofNat 440)
            (Some (ofNat 0))]
   \<and> map osc_calls (bank_oscillators
         (OscillatorBank_play ctx0 (OscillatorBank_new ctx0 \<lparr>partials = [partial100]\<rparr>) (ofNat 440)
            (Some (ofNat 0))))
       = [[CallPlay (ofNat 440) (Some (ofNat 0))]]"
proof -
  have general: "voice_pitch (Voice_play ctx v pitch velocity (Some t)) = pitch
    \<and> voice_oscillatorBanks (Voice_play ctx v pitch velocity (Some t))
        = map (\<lambda>bank. OscillatorBank_play ctx bank pitch (Some t)) (voice_oscillatorBanks v)
    \<and> voice_state (Voice_play ctx v pitch velocity (Some t)) = Playing
    \<and> gain_events (voice_gain (Voice_play ctx v pitch velocity (Some t)))
        = gain_events (voice_gain v)
          @ [ExponentialRampToValueAtTime tinyGain (currentTime ctx),
             ExponentialRampToValueAtTime (if falsy velocity then tinyGain else velocity)
               (fadd t (attack (voice_adsr v))),
             ExponentialRampToValueAtTime
               (if falsy (fmul velocity (sustain (voice_adsr v))) then tinyGain
                else fmul velocity (sustain (voice_adsr v)))
               (fadd (fadd t (attack (voice_adsr v))) (decay (voice_adsr v)))]
    \<and> Voice_play ctx v pitch velocity None = Voice_play ctx v pitch velocity (Some (currentTime ctx))"
    if "voice_state v = Ready"
    by (simp add: Voice_play_ready [OF that] timeOrNow_def)
  have calls: "map osc_calls (bank_oscillators
         (OscillatorBank_play ctx0 (OscillatorBank_new ctx0 \<lparr>partials = [partial100]\<rparr>) (ofNat 440)
            (Some (ofNat 0))))
       = [[CallPlay (ofNat 440) (Some (ofNat 0))]]"
    by (simp add: OscillatorBank_play_def bank_state_new bank_oscillators_new Let_def timeOrNow_def
        Oscillator_play_def Oscillator_new_def)
  have scenario: "voice_state (Voice_play ctx0 scenarioVoice (ofNat 440) (ofNat 1) (Some (ofNat 0))) = Playing
   \<and> voice_pitch (Voice_play ctx0 scenarioVoice (ofNat 440) (ofNat 1) (Some (ofNat 0))) = ofNat 440
   \<and> gain_events (voice_gain (Voice_play ctx0 scenarioVoice (ofNat 440) (ofNat 1) (Some (ofNat 0))))
       = [Connect,
          ExponentialRampToValueAtTime tinyGain (ofNat 0),
          ExponentialRampToValueAtTime (ofNat 1) (roundToDouble False 1 10),
          ExponentialRampToValueAtTime (roundToDouble False 5 10) (roundToDouble False 2 10)]
   \<and> voice_oscillatorBanks (Voice_play ctx0 scenarioVoice (ofNat 440) (ofNat 1) (Some (ofNat 0)))
       = [OscillatorBank_play ctx0 (OscillatorBank_new ctx0 \<lparr>partials = [partial100]\<rparr>) (ofNat 440)
            (Some (ofNat 0))]"
    unfolding scenario_play by simp
  from general scenarioVoice_facts(1) scenario calls show ?thesis
    by blast
qed

lemma layeredVoice_facts:
  "voice_state layeredVoice = Ready"
  "gain_events (voice_gain layeredVoice) = [Connect]"
  "voice_adsr layeredVoice = scenarioAdsr"
  by (simp_all add: layeredVoice_def Voice_new_def Let_def Voice_connect_def createGain_def
      schedule_def)

text \<open>
  A voice with three layers, played with the velocity NaN at time 0, with the velocity 1
  and no time given, and with a velocity whose product with the sustain level underflows
  (the envelope's sustain level being the least positive number).
\<close>

theorem play_from_ready_witness:
  "voice_state layeredVoice = Ready
   \<and> voice_state (Voice_play ctx0 layeredVoice (ofNat 220) NaN (Some (ofNat 0))) = Playing
   \<and> gain_events (voice_gain (Voice_play ctx0 layeredVoice (ofNat 220) NaN (Some (ofNat 0))))
       = [Connect,
          ExponentialRampToValueAtTime tinyGain (ofNat 0),
          ExponentialRampToValueAtTime tinyGain (roundToDouble False 1 10),
          ExponentialRampToValueAtTime tinyGain (roundToDouble False 2 10)]
   \<and> gain_events (voice_gain (Voice_play ctx0 layeredVoice (ofNat 220) (ofNat 1) None))
       = [Connect,
          ExponentialRampToValueAtTime tinyGain (ofNat 0),
          ExponentialRampToValueAtTime (ofNat 1) (roundToDouble False 1 10),
          ExponentialRampToValueAtTime (roundToDouble False 5 10) (roundToDouble False 2 10)]
   \<and> last (gain_events (voice_gain
        (Voice_play ctx0 (Voice_updateAdsr layeredVoice (scenarioAdsr\<lparr>sustain := Finite False 1 (- 1)\<rparr>))
           (ofNat 220) (Finite False 1 (- 1074)) (Some (ofNat 0)))))
       = ExponentialRampToValueAtTime tinyGain (roundToDouble False 2 10)"
proof -
  let ?w = "Voice_updateAdsr layeredVoice (scenarioAdsr\<lparr>sustain := Finite False 1 (- 1)\<rparr>)"
  have w: "voice_state ?w = Ready"
    "gain_events (voice_gain ?w) = [Connect]"
    "attack (voice_adsr ?w) = roundToDouble False 1 10"
    "decay (voice_adsr ?w) = roundToDouble False 1 10"
    "sustain (voice_adsr ?w) = Finite False 1 (- 1)"
    by (simp_all add: Voice_updateAdsr_def layeredVoice_facts scenarioAdsr_def del: One_nat_def)
  have a: "attack scenarioAdsr = roundToDouble False 1 10"
    "decay scenarioAdsr = roundToDouble False 1 10"
    "sustain scenarioAdsr = roundToDouble False 5 10"
    by (simp_all add: scenarioAdsr_def del: One_nat_def)
  have c: "currentTime ctx0 = ofNat 0"
    by (simp add: ctx0_def)
  have nan: "fmul NaN x = NaN" "falsy NaN" for x
    by simp_all
  have zero: "falsy (Finite False 0 0)"
    by simp
  note i1 = play_from_ready [of layeredVoice ctx0 "ofNat 220" NaN "ofNat 0",
      THEN conjunct1, rule_format, OF layeredVoice_facts(1)]
  note i2 = play_from_ready [of layeredVoice ctx0 "ofNat 220" "ofNat 1" "ofNat 0",
      THEN conjunct1, rule_format, OF layeredVoice_facts(1)]
  note i3 = play_from_ready [of ?w ctx0 "ofNat 220" "Finite False 1 (- 1074)" "ofNat 0",
      THEN conjunct1, rule_format, OF w(1)]
  have e1: "gain_events (voice_gain (Voice_play ctx0 layeredVoice (ofNat 220) NaN (Some (ofNat 0))))
       = [Connect,
          ExponentialRampToValueAtTime tinyGain (ofNat 0),
          ExponentialRampToValueAtTime tinyGain (roundToDouble False 1 10),
          ExponentialRampToValueAtTime tinyGain (roundToDouble False 2 10)]"
    using i1 unfolding layeredVoice_facts a c nan zero_plus_tenth tenth_plus_tenth
    by (simp del: One_nat_def)
  have e2: "gain_events (voice_gain (Voice_play ctx0 layeredVoice (ofNat 220) (ofNat 1) None))
       = [Connect,
          ExponentialRampToValueAtTime tinyGain (ofNat 0),
          ExponentialRampToValueAtTime (ofNat 1) (roundToDouble False 1 10),
          ExponentialRampToValueAtTime (roundToDouble False 5 10) (roundToDouble False 2 10)]"
    using i2 truthy_one truthy_half
    unfolding layeredVoice_facts a c one_times_half zero_plus_tenth tenth_plus_tenth
    by (simp del: One_nat_def)
  have e3: "last (gain_events (voice_gain
        (Voice_play ctx0 ?w (ofNat 220) (Finite False 1 (- 1074)) (Some (ofNat 0)))))
       = ExponentialRampToValueAtTime tinyGain (roundToDouble False 2 10)"
    using i3 zero unfolding w c product_underflows zero_plus_tenth tenth_plus_tenth
    by (simp del: One_nat_def)
  from i1 layeredVoice_facts(1) e1 e2 e3 show ?thesis
    by blast
qed

text \<open>
  Claim C3 as stated fails for an envelope with sustain 0: the last ramp scheduled does not
  go to \<^verbatim>\<open>velocity * sustain\<close>.
\<close>

theorem play_zero_sustain_counterexample:
  "voice_state pluckedVoice = Ready
   \<and> last (gain_events (voice_gain (Voice_play ctx0 pluckedVoice (ofNat 440) (ofNat 1) (Some (ofNat 0)))))
       \<noteq> ExponentialRampToValueAtTime (fmul (ofNat 1) (sustain (voice_adsr pluckedVoice)))
            (fadd (fadd (ofNat 0) (attack (voice_adsr pluckedVoice))) (decay (voice_adsr pluckedVoice)))"
proof -
  have r: "voice_state pluckedVoice = Ready"
    by (simp add: pluckedVoice_def voice_state_new)
  have adsr: "voice_adsr pluckedVoice = pluckedAdsr"
    by (simp add: pluckedVoice_def Voice_new_def Let_def Voice_connect_def)
  have s: "sustain pluckedAdsr = ofNat 0"
    by (simp add: pluckedAdsr_def)
  have ne: "tinyGain \<noteq> ofNat 0"
    by (simp add: tinyGain_eq ofNat_0)
  show ?thesis
    unfolding Voice_play_ready [OF r] adsr s one_times_zero
    using r ne falsy_zero by simp
qed

section \<open>Updating with the current descriptors\<close>

lemma map2_same: "map2 f xs (map g xs) = map (\<lambda>x. f x (g x)) xs"
  by (induction xs) simp_all

lemma OscillatorBank_update_own:
  "OscillatorBank_update b (OscillatorBank_layer b) =
     b\<lparr>bank_oscillators :=
         map (\<lambda>osc. Oscillator_update osc (Oscillator_partial osc)) (bank_oscillators b)\<rparr>"
  by (simp add: OscillatorBank_update_eq OscillatorBank_layer_def map2_same)

lemma Voice_update_own:
  "voice_state v \<noteq> Used \<Longrightarrow>
   Voice_update ctx v (Voice_spectrum v) =
     v\<lparr>voice_oscillatorBanks :=
         map (\<lambda>bank. OscillatorBank_update bank (OscillatorBank_layer bank)) (voice_oscillatorBanks v)\<rparr>"
  by (simp add: Voice_update_eq Voice_spectrum_def map2_same)

lemma length_bank_update:
  "length (bank_oscillators (OscillatorBank_update b layer)) = length (partials layer)"
  by (simp add: OscillatorBank_update_eq)

lemma length_voice_update:
  "voice_state v \<noteq> Used \<Longrightarrow>
   length (voice_oscillatorBanks (Voice_update ctx v spectrum)) = length spectrum"
  by (simp add: Voice_update_eq)

lemma voice_state_update: "voice_state (Voice_update ctx v spectrum) = voice_state v"
  by (cases "voice_state v = Used") (simp_all add: Voice_update_used Voice_update_eq)

text \<open>
  Claim C6. \<^verbatim>\<open>update\<close> with the descriptor list the bank currently realises keeps the
  oscillators it has, none created and none removed, and calls \<^verbatim>\<open>update\<close> on each of them;
  an \<^verbatim>\<open>update\<close> with a list \<open>L\<close> after an \<^verbatim>\<open>update\<close> with any list leaves as many children
  as a single \<^verbatim>\<open>update\<close> with \<open>L\<close>: the length of \<open>L\<close>. The same holds for a voice that is
  not \<^verbatim>\<open>used\<close>.
\<close>

theorem update_own_descriptors:
  "bank_oscillators (OscillatorBank_update b (OscillatorBank_layer b))
     = map (\<lambda>osc. Oscillator_update osc (Oscillator_partial osc)) (bank_oscillators b)
   \<and> length (bank_oscillators (OscillatorBank_update b (OscillatorBank_layer b)))
       = length (bank_oscillators b)
   \<and> length (bank_oscillators (OscillatorBank_update (OscillatorBank_update b layer') layer))
       = length (bank_oscillators (OscillatorBank_update b layer))
   \<and> length (bank_oscillators (OscillatorBank_update (OscillatorBank_update b layer') layer))
       = length (partials layer)
   \<and> (voice_state v \<noteq> Used \<longrightarrow>
        voice_oscillatorBanks (Voice_update ctx v (Voice_spectrum v))
          = map (\<lambda>bank. OscillatorBank_update bank (OscillatorBank_layer bank))
              (voice_oscillatorBanks v)
      \<and> length (voice_oscillatorBanks (Voice_update ctx v (Voice_spectrum v)))
          = length (voice_oscillatorBanks v)
      \<and> length (voice_oscillatorBanks (Voice_update ctx (Voice_update ctx' v spectrum') spectrum))
          = length (voice_oscillatorBanks (Voice_update ctx v spectrum))
      \<and> length (voice_oscillatorBanks (Voice_update ctx (Voice_update ctx' v spectrum') spectrum))
          = length spectrum)"
proof -
  have bank: "bank_oscillators (OscillatorBank_update b (OscillatorBank_layer b))
     = map (\<lambda>osc. Oscillator_update osc (Oscillator_partial osc)) (bank_oscillators b)"
    by (simp add: OscillatorBank_update_own)
  have voice: "voice_oscillatorBanks (Voice_update ctx v (Voice_spectrum v))
          = map (\<lambda>bank. OscillatorBank_update bank (OscillatorBank_layer bank))
              (voice_oscillatorBanks v)"
    if "voice_state v \<noteq> Used"
    using that by (simp add: Voice_update_own)
  have twice: "length (voice_oscillatorBanks (Voice_update ctx (Voice_update ctx' v spectrum') spectrum))
          = length spectrum"
    if "voice_state v \<noteq> Used"
    by (rule length_voice_update) (simp add: voice_state_update that)
  show ?thesis
    using voice twice by (simp add: bank length_bank_update length_voice_update)
qed

text \<open>The scenario's voice, updated with its own spectrum, and updated twice.\<close>

theorem update_own_descriptors_witness:
  "voice_state scenarioVoice \<noteq> Used
   \<and> length (voice_oscillatorBanks (Voice_update ctx0 scenarioVoice (Voice_spectrum scenarioVoice))) = 1
   \<and> map (map osc_calls \<circ> bank_oscillators)
        (voice_oscillatorBanks (Voice_update ctx0 scenarioVoice (Voice_spectrum scenarioVoice)))
       = [[[CallUpdate partial100]]]
   \<and> length (voice_oscillatorBanks
        (Voice_update ctx0 (Voice_update ctx0 scenarioVoice []) [\<lparr>partials = []\<rparr>, \<lparr>partials = []\<rparr>])) = 2"
  using update_own_descriptors [of scenarioBank "\<lparr>partials = []\<rparr>" "\<lparr>partials = []\<rparr>" scenarioVoice ctx0 ctx0
          "[]" "[\<lparr>partials = []\<rparr>, \<lparr>partials = []\<rparr>]"]
  by (simp add: scenarioVoice_eq OscillatorBank_update_own Oscillator_update_def Oscillator_partial_def
      partial100_def)

section \<open>Destroying a bank\<close>

lemma OscillatorBank_destroy_eq:
  "OscillatorBank_destroy ctx b =
     b\<lparr>bank_oscillators :=
         (if bank_state b = Playing
          then map (\<lambda>osc. Oscillator_stop osc (currentTime ctx)) (bank_oscillators b)
          else bank_oscillators b),
       bank_gain := schedule (bank_gain b) Disconnect\<rparr>"
  by (simp add: OscillatorBank_destroy_def OscillatorBank_disconnect_def OscillatorBank_stop_eq
      timeOrNow_def)

text \<open>
  Claim C10. \<^verbatim>\<open>OscillatorBank.destroy\<close> leaves \<^verbatim>\<open>_state\<close> and \<^verbatim>\<open>_pitch\<close> as they are and
  keeps every oscillator (each receives \<^verbatim>\<open>stop\<close> when the bank is playing); it disconnects
  the gain stage. A \<^verbatim>\<open>play\<close> after it still records the pitch, plays every oscillator and
  sets the state to \<^verbatim>\<open>playing\<close>, and an \<^verbatim>\<open>update\<close> after it still reconciles the
  oscillators; \<^verbatim>\<open>Voice.destroy\<close>, unlike it, sets the state to \<^verbatim>\<open>used\<close>.
\<close>

theorem bank_destroy_not_terminal:
  "bank_state (OscillatorBank_destroy ctx b) = bank_state b
   \<and> bank_pitch (OscillatorBank_destroy ctx b) = bank_pitch b
   \<and> bank_oscillators (OscillatorBank_destroy ctx b)
       = (if bank_state b = Playing
          then map (\<lambda>osc. Oscillator_stop osc (currentTime ctx)) (bank_oscillators b)
          else bank_oscillators b)
   \<and> length (bank_oscillators (OscillatorBank_destroy ctx b)) = length (bank_oscillators b)
   \<and> bank_gain (OscillatorBank_destroy ctx b) = schedule (bank_gain b) Disconnect
   \<and> (bank_state b \<noteq> Used \<longrightarrow>
        OscillatorBank_play c (OscillatorBank_destroy ctx b) pitch time =
          (OscillatorBank_destroy ctx b)
            \<lparr>bank_pitch := pitch,
             bank_oscillators :=
               map (\<lambda>osc. Oscillator_play osc pitch (Some (timeOrNow c time)))
                 (bank_oscillators (OscillatorBank_destroy ctx b)),
             bank_state := Playing\<rparr>)
   \<and> OscillatorBank_update (OscillatorBank_destroy ctx b) layer =
        (OscillatorBank_destroy ctx b)
          \<lparr>bank_oscillators :=
             map2 Oscillator_update (bank_oscillators (OscillatorBank_destroy ctx b)) (partials layer)
               @ map (createdOscillator (OscillatorBank_destroy ctx b))
                   (drop (length (bank_oscillators (OscillatorBank_destroy ctx b))) (partials layer))\<rparr>
   \<and> voice_state (Voice_destroy ctx v) = Used"
proof -
  have st: "bank_state (OscillatorBank_destroy ctx b) = bank_state b"
    by (simp add: OscillatorBank_destroy_eq)
  have play: "OscillatorBank_play c (OscillatorBank_destroy ctx b) pitch time =
          (OscillatorBank_destroy ctx b)
            \<lparr>bank_pitch := pitch,
             bank_oscillators :=
               map (\<lambda>osc. Oscillator_play osc pitch (Some (timeOrNow c time)))
                 (bank_oscillators (OscillatorBank_destroy ctx b)),
             bank_state := Playing\<rparr>"
    if "bank_state b \<noteq> Used"
    by (rule OscillatorBank_play_eq) (simp add: st that)
  have upd: "OscillatorBank_update (OscillatorBank_destroy ctx b) layer =
        (OscillatorBank_destroy ctx b)
          \<lparr>bank_oscillators :=
             map2 Oscillator_update (bank_oscillators (OscillatorBank_destroy ctx b)) (partials layer)
               @ map (createdOscillator (OscillatorBank_destroy ctx b))
                   (drop (length (bank_oscillators (OscillatorBank_destroy ctx b))) (partials layer))\<rparr>"
    by (rule OscillatorBank_update_eq)
  have fields: "bank_pitch (OscillatorBank_destroy ctx b) = bank_pitch b
     \<and> bank_oscillators (OscillatorBank_destroy ctx b)
       = (if bank_state b = Playing
          then map (\<lambda>osc. Oscillator_stop osc (currentTime ctx)) (bank_oscillators b)
          else bank_oscillators b)
     \<and> length (bank_oscillators (OscillatorBank_destroy ctx b)) = length (bank_oscillators b)
     \<and> bank_gain (OscillatorBank_destroy ctx b) = schedule (bank_gain b) Disconnect"
    by (simp add: OscillatorBank_destroy_eq)
  from st fields play upd voice_state_destroy [of ctx v] show ?thesis
    by blast
qed


text \<open>A playing bank, destroyed and played again.\<close>

theorem bank_destroy_not_terminal_witness:
  "bank_state playingBank \<noteq> Used
   \<and> bank_state (OscillatorBank_destroy ctx0 playingBank) = Playing
   \<and> bank_state (OscillatorBank_play ctx0 (OscillatorBank_destroy ctx0 playingBank) (ofNat 440) (Some (ofNat 1))) = Playing
   \<and> bank_pitch (OscillatorBank_play ctx0 (OscillatorBank_destroy ctx0 playingBank) (ofNat 440) (Some (ofNat 1))) = ofNat 440
   \<and> map osc_calls
        (bank_oscillators (OscillatorBank_play ctx0 (OscillatorBank_destroy ctx0 playingBank) (ofNat 440) (Some (ofNat 1))))
       = [[CallPlay (ofNat 220) (Some (ofNat 0)), CallStop (ofNat 0), CallPlay (ofNat 440) (Some (ofNat 1))],
          [CallPlay (ofNat 220) (Some (ofNat 0)), CallStop (ofNat 0), CallPlay (ofNat 440) (Some (ofNat 1))],
          [CallPlay (ofNat 220) (Some (ofNat 0)), CallStop (ofNat 0), CallPlay (ofNat 440) (Some (ofNat 1))]]"
  using bank_destroy_not_terminal [of ctx0 playingBank ctx0 "ofNat 440" "Some (ofNat 1)"]
  by (simp add: playingBank_eq Oscillator_play_def Oscillator_stop_def timeOrNow_def ctx0_def)

end
